theory Spec2Isabelle
  imports Complex_Main "HOL-Library.Word" "HOL-Library.Log_Nat" "HOL-Library.Sublist"
begin

unbundle bit_operations_syntax

section \<open>The texture compiler: data model\<close>

text \<open>
  The program is one file, \<^verbatim>\<open>src/main.cpp\<close>. It has one function per texture class
  (\<^verbatim>\<open>compile_albedo_roughness\<close>, \<^verbatim>\<open>compile_normal_metalness_ambient_occlusion\<close>,
  \<^verbatim>\<open>compile_parallax\<close>, \<^verbatim>\<open>compile_cube_map\<close>) and calls three libraries: the image
  decoder (stb_image), the texture codec (nvtt) and the renderer (bgfx, on an SDL window).
  The libraries are not part of the program. Every value they return to the program is
  read from a record of answers, \<open>world\<close>, so that each branch the program takes on a
  library result is a branch of the model. Every call the properties below speak about
  is appended to a trace of events.
\<close>

subsection \<open>Compression tiers and codec options\<close>

datatype Compression = GOOD_BUT_SLOW | POOR_BUT_FAST | NO_COMPRESSION

datatype Format = Format_RGB | Format_RGBA | Format_BC3 | Format_BC4 | Format_BC6 | Format_BC7

datatype PixelType = PixelType_Float

text \<open>
  \<^verbatim>\<open>setPixelFormat\<close> has two overloads: bit count with four channel masks, and four
  channel sizes in bits.
\<close>

datatype PixelFormat = Masks nat nat nat nat nat | Sizes nat nat nat nat

text \<open>
  A \<^verbatim>\<open>nvtt::CompressionOptions\<close> object, as far as the program sets it: a field the
  program leaves alone is \<open>None\<close>.
\<close>

record CompressionOptions =
  format :: "Format option"
  pixel_format :: "PixelFormat option"
  pixel_type :: "PixelType option"

definition default_options :: CompressionOptions where
  "default_options = \<lparr>format = None, pixel_format = None, pixel_type = None\<rparr>"

definition setFormat :: "Format \<Rightarrow> CompressionOptions \<Rightarrow> CompressionOptions" where
  "setFormat f opts = opts\<lparr>format := Some f\<rparr>"

definition setPixelFormat :: "PixelFormat \<Rightarrow> CompressionOptions \<Rightarrow> CompressionOptions" where
  "setPixelFormat p opts = opts\<lparr>pixel_format := Some p\<rparr>"

definition setPixelType :: "PixelType \<Rightarrow> CompressionOptions \<Rightarrow> CompressionOptions" where
  "setPixelType t opts = opts\<lparr>pixel_type := Some t\<rparr>"

text \<open>The \<^verbatim>\<open>switch (compression)\<close> of each compilation function, in source order.\<close>

fun albedo_roughness_options :: "Compression \<Rightarrow> CompressionOptions" where
  "albedo_roughness_options GOOD_BUT_SLOW = setFormat Format_BC7 default_options"
| "albedo_roughness_options POOR_BUT_FAST = setFormat Format_BC3 default_options"
| "albedo_roughness_options NO_COMPRESSION = setFormat Format_RGBA default_options"

fun normal_metalness_ambient_occlusion_options :: "Compression \<Rightarrow> CompressionOptions" where
  "normal_metalness_ambient_occlusion_options GOOD_BUT_SLOW = setFormat Format_BC7 default_options"
| "normal_metalness_ambient_occlusion_options POOR_BUT_FAST = setFormat Format_BC3 default_options"
| "normal_metalness_ambient_occlusion_options NO_COMPRESSION = setFormat Format_RGBA default_options"

fun parallax_options :: "Compression \<Rightarrow> CompressionOptions" where
  "parallax_options GOOD_BUT_SLOW = setFormat Format_BC4 default_options"
| "parallax_options POOR_BUT_FAST = setFormat Format_BC4 default_options"
| "parallax_options NO_COMPRESSION =
     setPixelFormat (Masks 8 0xFF 0x00 0x00 0x00) (setFormat Format_RGBA default_options)"

fun cube_map_compression_options :: "Compression \<Rightarrow> CompressionOptions" where
  "cube_map_compression_options GOOD_BUT_SLOW = setFormat Format_BC6 default_options"
| "cube_map_compression_options POOR_BUT_FAST = setFormat Format_BC3 default_options"
| "cube_map_compression_options NO_COMPRESSION =
     setPixelType PixelType_Float
       (setPixelFormat (Sizes 16 16 16 16) (setFormat Format_RGB default_options))"

text \<open>The irradiance options are set outside any \<^verbatim>\<open>switch\<close>: the tier is not read.\<close>

definition irradiance_compression_options :: CompressionOptions where
  "irradiance_compression_options =
     setPixelType PixelType_Float
       (setPixelFormat (Sizes 16 16 16 16) (setFormat Format_RGB default_options))"

fun prefilter_compression_options :: "Compression \<Rightarrow> CompressionOptions" where
  "prefilter_compression_options GOOD_BUT_SLOW = setFormat Format_BC6 default_options"
| "prefilter_compression_options POOR_BUT_FAST = setFormat Format_BC6 default_options"
| "prefilter_compression_options NO_COMPRESSION =
     setPixelType PixelType_Float
       (setPixelFormat (Sizes 16 16 16 16) (setFormat Format_RGBA default_options))"

subsection \<open>Decoded images and codec surfaces\<close>

text \<open>
  \<^verbatim>\<open>RgbaWrapper\<close> holds what \<^verbatim>\<open>stbi_load\<close> returned: \<open>data = None\<close> is the null pointer.
  The dimensions are C \<^verbatim>\<open>int\<close>s.
\<close>

record RgbaWrapper =
  width :: int
  height :: int
  data :: "8 word list option"

text \<open>\<^verbatim>\<open>HdrWrapper\<close>: the same for \<^verbatim>\<open>stbi_loadf\<close>, with float samples.\<close>

record HdrWrapper =
  hdr_width :: int
  hdr_height :: int
  hdr_data :: "real list option"

datatype WrapMode = WrapMode_Repeat

datatype AlphaMode = AlphaMode_Transparency

text \<open>
  A \<^verbatim>\<open>nvtt::Surface\<close>: four planes of floats (\<^verbatim>\<open>channel(0)\<close> to \<^verbatim>\<open>channel(3)\<close>: red,
  green, blue, alpha) and the three flags the program sets; a flag the program has not
  set is \<open>None\<close>. Floats are modelled as reals; where the program computes with them,
  every operation is followed by a rounding function \<open>fl\<close> that the model takes as a
  parameter.
\<close>

record Surface =
  surface_width :: int
  surface_height :: int
  channels :: "real list list"
  wrap_mode :: "WrapMode option"
  alpha_mode :: "AlphaMode option"
  normal_map :: "bool option"

definition empty_surface :: Surface where
  "empty_surface = \<lparr>surface_width = 0, surface_height = 0, channels = [[], [], [], []],
     wrap_mode = None, alpha_mode = None, normal_map = None\<rparr>"

definition channel :: "Surface \<Rightarrow> nat \<Rightarrow> real list" where
  "channel s c = channels s ! c"

text \<open>
  \<^verbatim>\<open>setImage(InputFormat_BGRA_8UB, w, h, 1, data)\<close>: pixel \<open>i\<close> is the four bytes from
  \<open>4 * i\<close>, in the order blue, green, red, alpha; each byte becomes the float
  \<open>byte / 255\<close>.
\<close>

definition byte_to_float :: "(real \<Rightarrow> real) \<Rightarrow> 8 word \<Rightarrow> real" where
  "byte_to_float fl b = fl (real (unat b) / 255)"

definition plane_8ub :: "(real \<Rightarrow> real) \<Rightarrow> 8 word list \<Rightarrow> nat \<Rightarrow> nat \<Rightarrow> real list" where
  "plane_8ub fl bytes n k = map (\<lambda>i. byte_to_float fl (bytes ! (4 * i + k))) [0..<n]"

definition setImage_BGRA_8UB ::
  "(real \<Rightarrow> real) \<Rightarrow> int \<Rightarrow> int \<Rightarrow> 8 word list \<Rightarrow> Surface \<Rightarrow> Surface" where
  "setImage_BGRA_8UB fl w h bytes s =
     (let n = nat (w * h) in
      s\<lparr>surface_width := w, surface_height := h,
        channels := [plane_8ub fl bytes n 2, plane_8ub fl bytes n 1,
                     plane_8ub fl bytes n 0, plane_8ub fl bytes n 3]\<rparr>)"

text \<open>\<^verbatim>\<open>setImage(InputFormat_RGBA_32F, w, h, 1, r, g, b, a)\<close>: four planes, copied.\<close>

definition setImage_RGBA_32F ::
  "int \<Rightarrow> int \<Rightarrow> real list \<Rightarrow> real list \<Rightarrow> real list \<Rightarrow> real list \<Rightarrow> Surface \<Rightarrow> Surface" where
  "setImage_RGBA_32F w h r g b a s =
     s\<lparr>surface_width := w, surface_height := h, channels := [r, g, b, a]\<rparr>"

text \<open>
  \<^verbatim>\<open>setImage(w, h, 1)\<close> allocates four planes and writes none of them: what they hold is
  the parameter \<open>fresh\<close>.
\<close>

definition setImage_blank :: "(nat \<Rightarrow> real list) \<Rightarrow> int \<Rightarrow> int \<Rightarrow> Surface \<Rightarrow> Surface" where
  "setImage_blank fresh w h s =
     (let n = nat (w * h) in
      s\<lparr>surface_width := w, surface_height := h,
        channels := [fresh n, fresh n, fresh n, fresh n]\<rparr>)"

text \<open>
  \<^verbatim>\<open>setImage(InputFormat_RGBA_16F, w, h, 1, data)\<close>: pixel \<open>i\<close> is four half floats from
  \<open>4 * i\<close>, in the order red, green, blue, alpha; \<open>half\<close> reads a half float.
\<close>

definition plane_16f :: "(16 word \<Rightarrow> real) \<Rightarrow> 16 word list \<Rightarrow> nat \<Rightarrow> nat \<Rightarrow> real list" where
  "plane_16f half halves n k = map (\<lambda>i. half (halves ! (4 * i + k))) [0..<n]"

definition setImage_RGBA_16F ::
  "(16 word \<Rightarrow> real) \<Rightarrow> int \<Rightarrow> int \<Rightarrow> 16 word list \<Rightarrow> Surface \<Rightarrow> Surface" where
  "setImage_RGBA_16F half w h halves s =
     (let n = nat (w * h) in
      s\<lparr>surface_width := w, surface_height := h,
        channels := [plane_16f half halves n 0, plane_16f half halves n 1,
                     plane_16f half halves n 2, plane_16f half halves n 3]\<rparr>)"

text \<open>\<^verbatim>\<open>dst.copyChannel(src, c)\<close>: plane \<open>c\<close> of \<open>src\<close> into plane \<open>c\<close> of \<open>dst\<close>, when the sizes agree.\<close>

definition copyChannel :: "Surface \<Rightarrow> nat \<Rightarrow> Surface \<Rightarrow> Surface" where
  "copyChannel src c dst =
     (if surface_width src = surface_width dst \<and> surface_height src = surface_height dst
      then dst\<lparr>channels := (channels dst)[c := channel src c]\<rparr>
      else dst)"

definition setWrapMode :: "WrapMode \<Rightarrow> Surface \<Rightarrow> Surface" where
  "setWrapMode m s = s\<lparr>wrap_mode := Some m\<rparr>"

definition setAlphaMode :: "AlphaMode \<Rightarrow> Surface \<Rightarrow> Surface" where
  "setAlphaMode m s = s\<lparr>alpha_mode := Some m\<rparr>"

definition setNormalMap :: "bool \<Rightarrow> Surface \<Rightarrow> Surface" where
  "setNormalMap b s = s\<lparr>normal_map := Some b\<rparr>"

text \<open>The loop \<^verbatim>\<open>std::swap(data[i * 4], data[i * 4 + 2])\<close> over the pixels: RGBA to BGRA.\<close>

fun swap_red_blue :: "nat \<Rightarrow> 8 word list \<Rightarrow> 8 word list" where
  "swap_red_blue 0 bytes = bytes"
| "swap_red_blue (Suc i) bytes =
     (let b = swap_red_blue i bytes in b[i * 4 := b ! (i * 4 + 2), i * 4 + 2 := b ! (i * 4)])"

text \<open>
  The reconstruction of the blue normal channel, one pixel: the body of the loop that
  fills \<^verbatim>\<open>blue_normal_channel\<close>. All arithmetic is in \<^verbatim>\<open>float\<close>.
\<close>

definition blue_normal :: "(real \<Rightarrow> real) \<Rightarrow> real \<Rightarrow> real \<Rightarrow> real" where
  "blue_normal fl red_normal green_normal =
     (let red = fl (fl (red_normal * 2) - 1);
          green = fl (fl (green_normal * 2) - 1);
          dot = fl (fl (red * red) + fl (green * green))
      in if dot < 1 then fl (fl (fl (sqrt (fl (1 - dot))) * 0.5) + 0.5) else 0.5)"

definition blue_normal_channel ::
  "(real \<Rightarrow> real) \<Rightarrow> nat \<Rightarrow> real list \<Rightarrow> real list \<Rightarrow> real list" where
  "blue_normal_channel fl n red_normal_channel green_normal_channel =
     map (\<lambda>i. blue_normal fl (red_normal_channel ! i) (green_normal_channel ! i)) [0..<n]"

subsection \<open>The libraries' answers\<close>

datatype Compressor =
  compressor | cube_map_compressor | irradiance_compressor | prefilter_compressor

datatype Shaders = CUBE_MAP_SHADER | IRRADIANCE_SHADER | PREFILTER_SHADER

text \<open>
  The renderer objects the program creates, named after its variables; the numbers are
  the cube side and the mip level.
\<close>

datatype resource =
    texture
  | vertex_buffer
  | texture_uniform
  | cube_side_textures nat
  | vertex_shader_handle Shaders
  | fragment_shader_handle Shaders
  | program_handle Shaders
  | cube_side_frame_buffer nat
  | blit_texture Shaders nat nat
  | cube_map_texture
  | cube_map_frame_buffer nat nat
  | irradiance_textures nat
  | irradiance_frame_buffer nat
  | prefilter_textures nat nat
  | settings_uniform
  | prefilter_frame_buffer nat nat

text \<open>
  The surfaces, named after the program's variables. In \<^verbatim>\<open>compile_cube_map\<close> every turn of
  a read-back loop declares a new \<^verbatim>\<open>surface\<close>: \<open>surface_of r\<close> is the one filled from the
  read-back texture \<open>r\<close>.
\<close>

datatype SurfaceName =
  surface | normal | metalness_ambient_occlusion | surface_of resource

record world =
  fl :: "real \<Rightarrow> real"
  stbi_load :: "string \<Rightarrow> RgbaWrapper"
  stbi_loadf :: "string \<Rightarrow> HdrWrapper"
  set_image_ok :: "SurfaceName \<Rightarrow> int \<Rightarrow> int \<Rightarrow> bool"
  fresh_plane :: "nat \<Rightarrow> real list"
  count_mipmaps :: "Surface \<Rightarrow> int"
  build_next_mipmap :: "Surface \<Rightarrow> Surface option"
  expand_normals :: "Surface \<Rightarrow> Surface"
  normalize_normal_map :: "Surface \<Rightarrow> Surface"
  pack_normals :: "Surface \<Rightarrow> Surface"
  output_header_ok :: "Compressor \<Rightarrow> bool"
  compress_ok :: "Compressor \<Rightarrow> int \<Rightarrow> int \<Rightarrow> bool"
  sdl_init_ok :: bool
  create_window_ok :: bool
  get_window_wm_info_ok :: bool
  bgfx_init_ok :: bool
  is_valid :: "resource \<Rightarrow> bool"
  read_texture :: "resource \<Rightarrow> 32 word \<times> 16 word list"
  half_to_float :: "16 word \<Rightarrow> real"
  bgfx_frame :: "nat \<Rightarrow> 32 word"

text \<open>
  \<open>build_next_mipmap\<close> is \<open>None\<close> where \<^verbatim>\<open>buildNextMipmap\<close> returns false, and the surface
  is then as it was. \<open>read_texture r\<close> is the frame number \<^verbatim>\<open>bgfx::readTexture\<close> returns
  for the read-back texture \<open>r\<close> and the pixels the read leaves in the buffer.
  \<open>bgfx_frame k\<close> is what the call number \<open>k\<close> of \<^verbatim>\<open>bgfx::frame()\<close> returns.
\<close>

subsection \<open>Events, state and control\<close>

datatype TextureType = TextureType_2D | TextureType_Cube

datatype event =
    Print string
  | SDL_Init
  | SDL_CreateWindow
  | SDL_GetWindowWMInfo
  | bgfx_init
  | LoadHdr string
  | Create resource
  | Destroy resource
  | Submit "16 word" resource
  | SetUniform resource "real list"
  | Blit "16 word" resource resource
  | ReadTexture resource "32 word"
  | Frame "32 word"
  | SetImage SurfaceName int int
  | OutputHeader Compressor TextureType int int int CompressionOptions string
  | Compress Compressor Surface int int CompressionOptions string
  | BuildNextMipmap SurfaceName

text \<open>
  The variables a compilation function changes after it has set them: the three
  surfaces, the view counter (\<^verbatim>\<open>bgfx::ViewId\<close> is 16 bits wide) and, for \<open>bgfx_frame\<close>,
  the number of frames requested so far.
\<close>

record state =
  trace :: "event list"
  the_surface :: Surface
  the_normal :: Surface
  the_metalness_ambient_occlusion :: Surface
  current_view :: "16 word"
  frames :: nat

definition initial_state :: state where
  "initial_state = \<lparr>trace = [], the_surface = empty_surface, the_normal = empty_surface,
     the_metalness_ambient_occlusion = empty_surface, current_view = 0, frames = 0\<rparr>"

definition emit :: "event list \<Rightarrow> state \<Rightarrow> state" where
  "emit es s = s\<lparr>trace := trace s @ es\<rparr>"

text \<open>
  Where a function stands after a step: still running, returned with an exit code, or
  inside a loop that never ends.
\<close>

datatype outcome = Running state | Returned int state | Hung state

fun final :: "outcome \<Rightarrow> state" where
  "final (Running s) = s"
| "final (Returned c s) = s"
| "final (Hung s) = s"

fun exit_code :: "outcome \<Rightarrow> int option" where
  "exit_code (Returned c s) = Some c"
| "exit_code (Running s) = None"
| "exit_code (Hung s) = None"

fun and_then :: "outcome \<Rightarrow> (state \<Rightarrow> outcome) \<Rightarrow> outcome" where
  "and_then (Running s) f = f s"
| "and_then (Returned c s) f = Returned c s"
| "and_then (Hung s) f = Hung s"

text \<open>Statements in sequence, and a \<^verbatim>\<open>for\<close> loop over the values its variable takes.\<close>

fun seq :: "(state \<Rightarrow> outcome) list \<Rightarrow> state \<Rightarrow> outcome" where
  "seq [] s = Running s"
| "seq (f # fs) s = and_then (f s) (seq fs)"

fun for_each :: "('a \<Rightarrow> state \<Rightarrow> outcome) \<Rightarrow> 'a list \<Rightarrow> state \<Rightarrow> outcome" where
  "for_each body [] s = Running s"
| "for_each body (x # xs) s = and_then (body x s) (for_each body xs)"

text \<open>A library call with no result the program checks.\<close>

definition call :: "event list \<Rightarrow> state \<Rightarrow> outcome" where
  "call es s = Running (emit es s)"

text \<open>
  \<^verbatim>\<open>if (!ok) { std::cout << message; return 1; }\<close> after the calls \<open>es\<close>.
\<close>

definition require :: "event list \<Rightarrow> bool \<Rightarrow> string \<Rightarrow> state \<Rightarrow> outcome" where
  "require es ok message s =
     (if ok then Running (emit es s) else Returned 1 (emit (es @ [Print message]) s))"

text \<open>
  The same where the message comes from the codec's error handler, which the model
  leaves out: \<^verbatim>\<open>if (!ok) { return 1; }\<close>.
\<close>

definition require_quiet :: "event list \<Rightarrow> bool \<Rightarrow> state \<Rightarrow> outcome" where
  "require_quiet es ok s = (if ok then Running (emit es s) else Returned 1 (emit es s))"

definition return :: "int \<Rightarrow> state \<Rightarrow> outcome" where
  "return c s = Returned c s"

section \<open>The two-dimensional texture classes\<close>

subsection \<open>\<^verbatim>\<open>compile_albedo_roughness\<close>\<close>

text \<open>
  The size check of \<^verbatim>\<open>compile_albedo_roughness\<close> and
  \<^verbatim>\<open>compile_normal_metalness_ambient_occlusion\<close>; true where the image is refused.
\<close>

definition size_refused :: "int \<Rightarrow> int \<Rightarrow> bool" where
  "size_refused w h \<longleftrightarrow>
     w \<le> 0 \<or> h \<le> 0 \<or> w > 65535 \<or> h > 65535 \<or> (w AND (w - 1)) \<noteq> 0 \<or> (h AND (h - 1)) \<noteq> 0"

text \<open>One turn of the mip loop: compress the level, then build the next one if there is one.\<close>

definition albedo_roughness_mip_level ::
  "world \<Rightarrow> string \<Rightarrow> CompressionOptions \<Rightarrow> int \<Rightarrow> int \<Rightarrow> state \<Rightarrow> outcome" where
  "albedo_roughness_mip_level w output compression_options total_mip_levels mip_level =
     seq [
       (\<lambda>s. require_quiet
          [Compress compressor (the_surface s) 0 mip_level compression_options output]
          (compress_ok w compressor 0 mip_level) s),
       (\<lambda>s. if mip_level + 1 < total_mip_levels
          then (case build_next_mipmap w (the_surface s) of
                  None \<Rightarrow> Returned 1 (emit [BuildNextMipmap surface,
                    Print ''Texture compiler error. Failed to build a mip map.''] s)
                | Some m \<Rightarrow> Running (emit [BuildNextMipmap surface] (s\<lparr>the_surface := m\<rparr>)))
          else Running s)]"

definition compile_albedo_roughness ::
  "world \<Rightarrow> string \<Rightarrow> string \<Rightarrow> Compression \<Rightarrow> outcome" where
  "compile_albedo_roughness w input output compression =
     (let d = stbi_load w input in
      case data d of
        None \<Rightarrow> Returned 1
          (emit [Print ''Texture compiler error. Failed to load a texture.''] initial_state)
      | Some loaded \<Rightarrow>
          if size_refused (width d) (height d)
          then Returned 1
            (emit [Print ''Texture compiler error. Image size is not power of two.''] initial_state)
          else
            let bytes = swap_red_blue (nat (width d * height d)) loaded in
            if \<not> set_image_ok w surface (width d) (height d)
            then Returned 1
              (emit [SetImage surface (width d) (height d),
                    Print ''Texture compiler error. Failed to set an image.''] initial_state)
            else
              let image = setNormalMap False (setAlphaMode AlphaMode_Transparency
                    (setWrapMode WrapMode_Repeat
                      (setImage_BGRA_8UB (fl w) (width d) (height d) bytes empty_surface)));
                  compression_options = albedo_roughness_options compression;
                  total_mip_levels = count_mipmaps w image
              in seq [
                   require_quiet
                     [OutputHeader compressor TextureType_2D (width d) (height d)
                        total_mip_levels compression_options output]
                     (output_header_ok w compressor),
                   for_each
                     (albedo_roughness_mip_level w output compression_options total_mip_levels)
                     [0..total_mip_levels - 1],
                   return 0]
                 (emit [SetImage surface (width d) (height d)]
                    (initial_state\<lparr>the_surface := image\<rparr>)))"

subsection \<open>\<^verbatim>\<open>compile_normal_metalness_ambient_occlusion\<close>\<close>

text \<open>
  One turn of its mip loop. The surface that is compressed is filled anew each turn from
  planes 0 and 1 of \<^verbatim>\<open>normal\<close> and planes 2 and 3 of \<^verbatim>\<open>metalness_ambient_occlusion\<close>; the
  program does not look at the result of that \<^verbatim>\<open>setImage\<close>.
\<close>

definition normal_metalness_ambient_occlusion_mip_level ::
  "world \<Rightarrow> string \<Rightarrow> CompressionOptions \<Rightarrow> int \<Rightarrow> int \<Rightarrow> state \<Rightarrow> outcome" where
  "normal_metalness_ambient_occlusion_mip_level w output compression_options
       total_mip_levels mip_level =
     seq [
       (\<lambda>s. let nw = surface_width (the_normal s); nh = surface_height (the_normal s) in
          Running (emit [SetImage surface nw nh]
            (if set_image_ok w surface nw nh
             then s\<lparr>the_surface := setImage_RGBA_32F nw nh
                    (channel (the_normal s) 0) (channel (the_normal s) 1)
                    (channel (the_metalness_ambient_occlusion s) 2)
                    (channel (the_metalness_ambient_occlusion s) 3) (the_surface s)\<rparr>
             else s))),
       (\<lambda>s. require_quiet
          [Compress compressor (the_surface s) 0 mip_level compression_options output]
          (compress_ok w compressor 0 mip_level) s),
       (\<lambda>s. if mip_level + 1 < total_mip_levels
          then seq [
            (\<lambda>s. case build_next_mipmap w (the_normal s) of
                    None \<Rightarrow> Returned 1 (emit [BuildNextMipmap normal,
                      Print ''Texture compiler error. Failed to build a normal mip map.''] s)
                  | Some m \<Rightarrow> Running (emit [BuildNextMipmap normal] (s\<lparr>the_normal := m\<rparr>))),
            (\<lambda>s. Running (s\<lparr>the_normal :=
                    pack_normals w (normalize_normal_map w (expand_normals w (the_normal s)))\<rparr>)),
            (\<lambda>s. case build_next_mipmap w (the_metalness_ambient_occlusion s) of
                    None \<Rightarrow> Returned 1 (emit [BuildNextMipmap metalness_ambient_occlusion,
                      Print ''Texture compiler error. Failed to build a metalness ambient occlusion mip map.''] s)
                  | Some m \<Rightarrow> Running (emit [BuildNextMipmap metalness_ambient_occlusion]
                      (s\<lparr>the_metalness_ambient_occlusion := m\<rparr>)))] s
          else Running s)]"

definition compile_normal_metalness_ambient_occlusion ::
  "world \<Rightarrow> string \<Rightarrow> string \<Rightarrow> Compression \<Rightarrow> outcome" where
  "compile_normal_metalness_ambient_occlusion w input output compression =
     (let d = stbi_load w input in
      case data d of
        None \<Rightarrow> Returned 1
          (emit [Print ''Texture compiler error. Failed to load a texture.''] initial_state)
      | Some loaded \<Rightarrow>
          if size_refused (width d) (height d)
          then Returned 1
            (emit [Print ''Texture compiler error. Image size is not power of two.''] initial_state)
          else
            let bytes = swap_red_blue (nat (width d * height d)) loaded in
            if \<not> set_image_ok w surface (width d) (height d)
            then Returned 1
              (emit [SetImage surface (width d) (height d),
                    Print ''Texture compiler error. Failed to set an image.''] initial_state)
            else
              let image = setImage_BGRA_8UB (fl w) (width d) (height d) bytes empty_surface;
                  red_normal_channel = channel image 0;
                  green_normal_channel = channel image 1;
                  n = nat (width d) * nat (height d);
                  blue = blue_normal_channel (fl w) n red_normal_channel green_normal_channel;
                  alpha_normal_channel = replicate n 1
              in
              if \<not> set_image_ok w normal (width d) (height d)
              then Returned 1
                (emit [SetImage surface (width d) (height d), SetImage normal (width d) (height d),
                      Print ''Texture compiler error. Failed to set an image.''] initial_state)
              else
                let normal_image = setNormalMap True (setAlphaMode AlphaMode_Transparency
                      (setWrapMode WrapMode_Repeat
                        (setImage_RGBA_32F (width d) (height d) red_normal_channel
                           green_normal_channel blue alpha_normal_channel empty_surface)))
                in
                if \<not> set_image_ok w metalness_ambient_occlusion (width d) (height d)
                then Returned 1
                  (emit [SetImage surface (width d) (height d),
                        SetImage normal (width d) (height d),
                        SetImage metalness_ambient_occlusion (width d) (height d),
                        Print ''Texture compiler error. Failed to set an image.''] initial_state)
                else
                  let mao = setNormalMap False (setAlphaMode AlphaMode_Transparency
                        (setWrapMode WrapMode_Repeat
                          (copyChannel image 3 (copyChannel image 2
                            (setImage_blank (fresh_plane w) (width d) (height d)
                               empty_surface)))));
                      compression_options = normal_metalness_ambient_occlusion_options compression;
                      total_mip_levels = count_mipmaps w image
                  in seq [
                       require_quiet
                         [OutputHeader compressor TextureType_2D (width d) (height d)
                            total_mip_levels compression_options output]
                         (output_header_ok w compressor),
                       for_each
                         (normal_metalness_ambient_occlusion_mip_level w output
                            compression_options total_mip_levels)
                         [0..total_mip_levels - 1],
                       return 0]
                     (emit [SetImage surface (width d) (height d),
                           SetImage normal (width d) (height d),
                           SetImage metalness_ambient_occlusion (width d) (height d)]
                        (initial_state\<lparr>the_surface := image, the_normal := normal_image,
                           the_metalness_ambient_occlusion := mao\<rparr>)))"

subsection \<open>\<^verbatim>\<open>compile_parallax\<close>\<close>

text \<open>Its size check tests the dimensions against zero with \<^verbatim>\<open>==\<close>, not \<^verbatim>\<open><=\<close>.\<close>

definition parallax_size_refused :: "int \<Rightarrow> int \<Rightarrow> bool" where
  "parallax_size_refused w h \<longleftrightarrow>
     w = 0 \<or> h = 0 \<or> w > 65535 \<or> h > 65535 \<or> (w AND (w - 1)) \<noteq> 0 \<or> (h AND (h - 1)) \<noteq> 0"

text \<open>
  One turn of its mip loop. Where \<^verbatim>\<open>buildNextMipmap\<close> fails the branch prints and has no
  \<^verbatim>\<open>return\<close>: the loop goes on.
\<close>

definition parallax_mip_level ::
  "world \<Rightarrow> string \<Rightarrow> CompressionOptions \<Rightarrow> int \<Rightarrow> int \<Rightarrow> state \<Rightarrow> outcome" where
  "parallax_mip_level w output compression_options total_mip_levels mip_level =
     seq [
       (\<lambda>s. require_quiet
          [Compress compressor (the_surface s) 0 mip_level compression_options output]
          (compress_ok w compressor 0 mip_level) s),
       (\<lambda>s. if mip_level + 1 < total_mip_levels
          then (case build_next_mipmap w (the_surface s) of
                  None \<Rightarrow> Running (emit [BuildNextMipmap surface,
                    Print ''Texture compiler error. Failed to build a mip map.''] s)
                | Some m \<Rightarrow> Running (emit [BuildNextMipmap surface] (s\<lparr>the_surface := m\<rparr>)))
          else Running s)]"

definition compile_parallax ::
  "world \<Rightarrow> string \<Rightarrow> string \<Rightarrow> Compression \<Rightarrow> outcome" where
  "compile_parallax w input output compression =
     (let d = stbi_load w input in
      case data d of
        None \<Rightarrow> Returned 1
          (emit [Print ''Texture compiler error. Failed to load a texture.''] initial_state)
      | Some bytes \<Rightarrow>
          if parallax_size_refused (width d) (height d)
          then Returned 1
            (emit [Print ''Texture compiler error. Image size is not power of two.''] initial_state)
          else
            if \<not> set_image_ok w surface (width d) (height d)
            then Returned 1
              (emit [SetImage surface (width d) (height d),
                    Print ''Texture compiler error. Failed to set a texture.''] initial_state)
            else
              let image = setNormalMap False (setAlphaMode AlphaMode_Transparency
                    (setWrapMode WrapMode_Repeat
                      (setImage_BGRA_8UB (fl w) (width d) (height d) bytes empty_surface)));
                  compression_options = parallax_options compression;
                  total_mip_levels = count_mipmaps w image
              in seq [
                   require_quiet
                     [OutputHeader compressor TextureType_2D (width d) (height d)
                        total_mip_levels compression_options output]
                     (output_header_ok w compressor),
                   for_each
                     (parallax_mip_level w output compression_options total_mip_levels)
                     [0..total_mip_levels - 1],
                   return 0]
                 (emit [SetImage surface (width d) (height d)]
                    (initial_state\<lparr>the_surface := image\<rparr>)))"

section \<open>The cube map class\<close>

subsection \<open>Counting mip levels\<close>

text \<open>\<^verbatim>\<open>count_mip_maps\<close>: the \<^verbatim>\<open>while (size > 1)\<close> loop, then the function.\<close>

function count_mip_maps_loop :: "nat \<Rightarrow> int \<Rightarrow> int" where
  "count_mip_maps_loop sz result =
     (if sz > 1 then count_mip_maps_loop (sz div 2) (result + 1) else result)"
  by pat_completeness auto
termination
  by (relation "measure fst") auto

declare count_mip_maps_loop.simps [simp del]

definition count_mip_maps :: "nat \<Rightarrow> int" where
  "count_mip_maps sz = count_mip_maps_loop sz 1"

text \<open>
  The values taken by the variables of
  \<^verbatim>\<open>for (size = ..., mip_level = 0; size >= 1; size /= 2, mip_level++)\<close>.
\<close>

function mip_sizes :: "nat \<Rightarrow> nat \<Rightarrow> (nat \<times> nat) list" where
  "mip_sizes sz mip_level =
     (if sz \<ge> 1 then (sz, mip_level) # mip_sizes (sz div 2) (mip_level + 1) else [])"
  by pat_completeness auto
termination
  by (relation "measure fst") auto

declare mip_sizes.simps [simp del]

text \<open>The casts of a \<^verbatim>\<open>size_t\<close> to \<^verbatim>\<open>uint16_t\<close> and to \<^verbatim>\<open>int\<close>.\<close>

definition to_uint16 :: "nat \<Rightarrow> nat" where
  "to_uint16 n = n mod 65536"

definition to_int :: "nat \<Rightarrow> int" where
  "to_int n = sint (word_of_nat n :: 32 word)"

subsection \<open>Reading a render target back\<close>

text \<open>
  The loop \<^verbatim>\<open>do { current_frame_id = bgfx::frame(); } while (current_frame_id < frame_id);\<close>
  Nothing bounds the number of turns: where it never ends the value is \<open>None\<close>.
\<close>

partial_function (option) wait_for_frame :: "world \<Rightarrow> 32 word \<Rightarrow> state \<Rightarrow> state option" where
  "wait_for_frame w frame_id s =
     (let current_frame_id = bgfx_frame w (frames s);
          s' = s\<lparr>trace := trace s @ [Frame current_frame_id], frames := Suc (frames s)\<rparr>
      in if current_frame_id < frame_id then wait_for_frame w frame_id s' else Some s')"

text \<open>
  The block that the three read-back loops share: create the read-back texture \<open>r\<close>, blit
  the render target \<open>src\<close> into it, ask for the pixels, wait, destroy \<open>r\<close>.
\<close>

definition read_back :: "world \<Rightarrow> resource \<Rightarrow> resource \<Rightarrow> string \<Rightarrow> state \<Rightarrow> outcome" where
  "read_back w r src message s =
     (if \<not> is_valid w r then Returned 1 (emit [Create r, Print message] s)
      else
        let frame_id = fst (read_texture w r);
            s1 = emit [Create r, Blit (current_view s) r src, ReadTexture r frame_id] s
        in case wait_for_frame w frame_id s1 of
             None \<Rightarrow> Hung s1
           | Some s2 \<Rightarrow> Running (emit [Destroy r] s2))"

text \<open>Then a new \<^verbatim>\<open>surface\<close> is filled from the buffer the pixels were read into.\<close>

definition set_read_back_image :: "world \<Rightarrow> resource \<Rightarrow> int \<Rightarrow> string \<Rightarrow> state \<Rightarrow> outcome" where
  "set_read_back_image w r sz message s =
     (if set_image_ok w (surface_of r) sz sz
      then Running (emit [SetImage (surface_of r) sz sz]
             (s\<lparr>the_surface := setImage_RGBA_16F (half_to_float w) sz sz
                   (snd (read_texture w r)) empty_surface\<rparr>))
      else Returned 1 (emit [SetImage (surface_of r) sz sz, Print message] s))"

subsection \<open>\<^verbatim>\<open>compile_cube_map\<close>\<close>

definition hdr_size_refused :: "int \<Rightarrow> int \<Rightarrow> bool" where
  "hdr_size_refused w h \<longleftrightarrow> w \<le> 0 \<or> h \<le> 0 \<or> w > 65535 \<or> h > 65535"

text \<open>\<^verbatim>\<open>if (!ok) { std::cout << message; bgfx::destroy(...); return 1; }\<close>\<close>

definition require_cleanup ::
  "event list \<Rightarrow> bool \<Rightarrow> string \<Rightarrow> event list \<Rightarrow> state \<Rightarrow> outcome" where
  "require_cleanup es ok message cleanup s =
     (if ok then Running (emit es s) else Returned 1 (emit (es @ [Print message] @ cleanup) s))"

definition create :: "world \<Rightarrow> resource \<Rightarrow> string \<Rightarrow> state \<Rightarrow> outcome" where
  "create w r message = require [Create r] (is_valid w r) message"

text \<open>The vertex shader, the fragment shader and the program of one of the three passes.\<close>

definition create_program ::
  "world \<Rightarrow> Shaders \<Rightarrow> string \<Rightarrow> string \<Rightarrow> string \<Rightarrow> state \<Rightarrow> outcome" where
  "create_program w sh vertex_message fragment_message program_message =
     seq [
       create w (vertex_shader_handle sh) vertex_message,
       require_cleanup [Create (fragment_shader_handle sh)]
         (is_valid w (fragment_shader_handle sh)) fragment_message
         [Destroy (vertex_shader_handle sh)],
       require_cleanup [Create (program_handle sh)]
         (is_valid w (program_handle sh)) program_message
         [Destroy (fragment_shader_handle sh), Destroy (vertex_shader_handle sh)]]"

definition next_view :: "state \<Rightarrow> outcome" where
  "next_view s = Running (s\<lparr>current_view := current_view s + 1\<rparr>)"

text \<open>One render pass: a frame buffer on the target, then the draw call on the current view.\<close>

definition render :: "world \<Rightarrow> resource \<Rightarrow> string \<Rightarrow> event list \<Rightarrow> Shaders \<Rightarrow> state \<Rightarrow> outcome" where
  "render w frame_buffer message uniforms sh =
     seq [
       create w frame_buffer message,
       (\<lambda>s. call (uniforms @ [Submit (current_view s) (program_handle sh)]) s)]"

text \<open>
  The uniform of a prefilter pass: \<^verbatim>\<open>MAX_MIP_LEVELS\<close> is 4, the first component is
  \<^verbatim>\<open>float(min(mip_level, MAX_MIP_LEVELS)) / MAX_MIP_LEVELS\<close>, the second
  \<^verbatim>\<open>float(output_size)\<close>.
\<close>

definition MAX_MIP_LEVELS :: nat where
  "MAX_MIP_LEVELS = 4"

definition settings :: "(real \<Rightarrow> real) \<Rightarrow> nat \<Rightarrow> nat \<Rightarrow> real list" where
  "settings rnd output_size mip_level =
     [rnd (rnd (real (min mip_level MAX_MIP_LEVELS)) / rnd (real MAX_MIP_LEVELS)),
      rnd (real output_size), 0, 0]"

text \<open>One turn of the mip loop of the cube map itself: as for a two-dimensional texture.\<close>

definition cube_map_mip_level ::
  "world \<Rightarrow> string \<Rightarrow> CompressionOptions \<Rightarrow> int \<Rightarrow> nat \<Rightarrow> int \<Rightarrow> state \<Rightarrow> outcome" where
  "cube_map_mip_level w output compression_options total_mip_levels side mip_level =
     seq [
       (\<lambda>s. require_quiet
          [Compress cube_map_compressor (the_surface s) (int side) mip_level
             compression_options output]
          (compress_ok w cube_map_compressor (int side) mip_level) s),
       (\<lambda>s. if mip_level + 1 < total_mip_levels
          then (case build_next_mipmap w (the_surface s) of
                  None \<Rightarrow> Returned 1
                    (emit [BuildNextMipmap (surface_of (blit_texture CUBE_MAP_SHADER side 0)),
                       Print ''Texture compiler error. Failed to build a cube map mip map.''] s)
                | Some m \<Rightarrow> Running
                    (emit [BuildNextMipmap (surface_of (blit_texture CUBE_MAP_SHADER side 0))]
                       (s\<lparr>the_surface := m\<rparr>)))
          else Running s)]"

text \<open>One turn of each of the three read-back loops.\<close>

definition cube_side_read_back ::
  "world \<Rightarrow> string \<Rightarrow> nat \<Rightarrow> CompressionOptions \<Rightarrow> int \<Rightarrow> nat \<Rightarrow> state \<Rightarrow> outcome" where
  "cube_side_read_back w output output_size compression_options total_mip_levels side =
     seq [
       read_back w (blit_texture CUBE_MAP_SHADER side 0) (cube_side_textures side)
         ''Texture compiler error. Failed to create a read back texture.'',
       set_read_back_image w (blit_texture CUBE_MAP_SHADER side 0) (to_int output_size)
         ''Texture compiler error. Failed to set an image.'',
       for_each (cube_map_mip_level w output compression_options total_mip_levels side)
         [0..total_mip_levels - 1],
       next_view]"

definition irradiance_read_back ::
  "world \<Rightarrow> string \<Rightarrow> nat \<Rightarrow> nat \<Rightarrow> state \<Rightarrow> outcome" where
  "irradiance_read_back w output_irradiance irradiance_size side =
     seq [
       read_back w (blit_texture IRRADIANCE_SHADER side 0) (irradiance_textures side)
         ''Texture compiler error. Failed to create an irradiance read back texture.'',
       set_read_back_image w (blit_texture IRRADIANCE_SHADER side 0) (to_int irradiance_size)
         ''Texture compiler error. Failed to create an irradiance read back surface.'',
       (\<lambda>s. require_quiet
          [Compress irradiance_compressor (the_surface s) (int side) 0
             irradiance_compression_options output_irradiance]
          (compress_ok w irradiance_compressor (int side) 0) s),
       next_view]"

definition prefilter_read_back ::
  "world \<Rightarrow> string \<Rightarrow> CompressionOptions \<Rightarrow> nat \<Rightarrow> nat \<times> nat \<Rightarrow> state \<Rightarrow> outcome" where
  "prefilter_read_back w output_prefilter compression_options side =
     (\<lambda>(mip_size, mip_level). seq [
       read_back w (blit_texture PREFILTER_SHADER side mip_level)
         (prefilter_textures side mip_level)
         ''Texture compiler error. Failed to create a prefilter read back texture.'',
       set_read_back_image w (blit_texture PREFILTER_SHADER side mip_level) (int mip_size)
         ''Texture compiler error. Failed to create a prefilter read back surface.'',
       (\<lambda>s. require_quiet
          [Compress prefilter_compressor (the_surface s) (int side) (int mip_level)
             compression_options output_prefilter]
          (compress_ok w prefilter_compressor (int side) (int mip_level)) s),
       next_view])"

text \<open>
  The statements of the function up to its last line, and the function: these, then
  \<^verbatim>\<open>return 0\<close>. A call that returns nothing the program looks at
  and that no property below speaks about (view names, view rectangles, transforms,
  vertex buffers, render state) is not in the trace, and neither are the destructors of the
  wrappers.
\<close>

definition cube_map_statements ::
  "world \<Rightarrow> string \<Rightarrow> string \<Rightarrow> nat \<Rightarrow> string \<Rightarrow> nat \<Rightarrow> string \<Rightarrow> nat \<Rightarrow> Compression
     \<Rightarrow> (state \<Rightarrow> outcome) list" where
  "cube_map_statements w input output output_size output_irradiance irradiance_size
       output_prefilter prefilter_size compression =
     (let d = stbi_loadf w input in
      [
        require [SDL_Init] (sdl_init_ok w)
          ''Texture compiler error. Failed to initialize a video subsystem.'',
        require [SDL_CreateWindow] (create_window_ok w)
          ''Texture compiler error. Failed to initialize a window.'',
        require [SDL_GetWindowWMInfo] (get_window_wm_info_ok w)
          ''Texture compiler error. Failed to get system window handle.'',
        require [bgfx_init] (bgfx_init_ok w)
          ''Texture compiler error. Failed to initialize a renderer.'',
        require [LoadHdr input] (hdr_data d \<noteq> None)
          ''Texture compiler error. Failed to open texture file.'',
        require [] (\<not> hdr_size_refused (hdr_width d) (hdr_height d))
          ''Texture compiler error. Texture is too big.'',
        create w texture ''Texture compiler error. Failed to create HDR texture.'',
        create w vertex_buffer ''Texture compiler error. Failed to create cube vertex buffer.'',
        create w texture_uniform ''Texture compiler error. Failed to create texture uniform.'',
        for_each (\<lambda>side. create w (cube_side_textures side)
            ''Texture compiler error. Failed to create cube map side texture.'')
          [0..<6],
        create_program w CUBE_MAP_SHADER
          ''Texture compiler error. Failed to create cube map vertex shader.''
          ''Texture compiler error. Failed to create cube map fragment shader.''
          ''Texture compiler error. Failed to create cube map program.'',
        (\<lambda>s. Running (s\<lparr>current_view := 0\<rparr>)),
        for_each (\<lambda>side. seq [
            render w (cube_side_frame_buffer side)
              ''Texture compiler error. Failed to create cube map side frame buffer.''
              [] CUBE_MAP_SHADER,
            next_view])
          [0..<6],
        require_quiet
          [OutputHeader cube_map_compressor TextureType_Cube (to_int output_size)
             (to_int output_size) (count_mip_maps output_size)
             (cube_map_compression_options compression) output]
          (output_header_ok w cube_map_compressor),
        for_each (cube_side_read_back w output output_size
            (cube_map_compression_options compression) (count_mip_maps output_size))
          [0..<6],
        create w cube_map_texture ''Texture compiler error. Failed to create cube map texture.'',
        for_each (\<lambda>side. for_each (\<lambda>(sz, mip_level). seq [
              render w (cube_map_frame_buffer side mip_level)
                ''Texture compiler error. Failed to create cube map frame buffer.''
                [] CUBE_MAP_SHADER,
              next_view])
            (mip_sizes output_size 0))
          [0..<6],
        for_each (\<lambda>side. create w (irradiance_textures side)
            ''Texture compiler error. Failed to create irradiance texture.'')
          [0..<6],
        create_program w IRRADIANCE_SHADER
          ''Texture compiler error. Failed to create irradiance map vertex shader.''
          ''Texture compiler error. Failed to create irradiance map fragment shader.''
          ''Texture compiler error. Failed to create irradiance map program.'',
        for_each (\<lambda>side. seq [
            render w (irradiance_frame_buffer side)
              ''Texture compiler error. Failed to create irradiance map frame buffer.''
              [] IRRADIANCE_SHADER,
            next_view])
          [0..<6],
        require_quiet
          [OutputHeader irradiance_compressor TextureType_Cube (to_int irradiance_size)
             (to_int irradiance_size) 1 irradiance_compression_options output_irradiance]
          (output_header_ok w irradiance_compressor),
        for_each (irradiance_read_back w output_irradiance irradiance_size) [0..<6],
        for_each (\<lambda>side. for_each (\<lambda>(mip_size, mip_level).
              create w (prefilter_textures side mip_level)
                ''Texture compiler error. Failed to create prefilter side texture.'')
            (mip_sizes (to_uint16 prefilter_size) 0))
          [0..<6],
        create_program w PREFILTER_SHADER
          ''Texture compiler error. Failed to create prefilter vertex shader.''
          ''Texture compiler error. Failed to create prefilter fragment shader.''
          ''Texture compiler error. Failed to create prefilter program.'',
        create w settings_uniform ''Texture compiler error. Failed to create a settings uniform.'',
        for_each (\<lambda>side. for_each (\<lambda>(mip_size, mip_level). seq [
              render w (prefilter_frame_buffer side mip_level)
                ''Texture compiler error. Failed to create prefilter frame buffer.''
                [SetUniform settings_uniform (settings (fl w) output_size mip_level)]
                PREFILTER_SHADER,
              next_view])
            (mip_sizes (to_uint16 prefilter_size) 0))
          [0..<6],
        require_quiet
          [OutputHeader prefilter_compressor TextureType_Cube (to_int prefilter_size)
             (to_int prefilter_size) (count_mip_maps prefilter_size)
             (prefilter_compression_options compression) output_prefilter]
          (output_header_ok w prefilter_compressor),
        for_each (\<lambda>side. for_each
            (prefilter_read_back w output_prefilter (prefilter_compression_options compression)
               side)
            (mip_sizes (to_uint16 prefilter_size) 0))
          [0..<6]])"

definition compile_cube_map ::
  "world \<Rightarrow> string \<Rightarrow> string \<Rightarrow> nat \<Rightarrow> string \<Rightarrow> nat \<Rightarrow> string \<Rightarrow> nat \<Rightarrow> Compression
     \<Rightarrow> outcome" where
  "compile_cube_map w input output output_size output_irradiance irradiance_size
       output_prefilter prefilter_size compression =
     seq (cube_map_statements w input output output_size output_irradiance irradiance_size
            output_prefilter prefilter_size compression @ [return 0])
       initial_state"

section \<open>Worlds to run the program in\<close>

text \<open>
  A stand-in for \<^verbatim>\<open>buildNextMipmap\<close>: halves both dimensions, down to one pixel, and
  keeps the first pixels.
\<close>

definition halve :: "Surface \<Rightarrow> Surface option" where
  "halve s =
     (let w = max 1 (surface_width s div 2); h = max 1 (surface_height s div 2) in
        Some (s\<lparr>surface_width := w, surface_height := h,
                channels := map (take (nat (w * h))) (channels s)\<rparr>))"

text \<open>
  A world in which every library call succeeds. Floats are exact. The decoded image is
  2 by 1 pixels; the decoded panorama is 3 by 5 pixels. A read is complete at frame 2; the
  first frame has number 1 and the later ones number 2.
\<close>

definition world_ok :: world where
  "world_ok = \<lparr>fl = (\<lambda>x. x),
     stbi_load = (\<lambda>p. \<lparr>width = 2, height = 1, data = Some [10, 20, 30, 40, 50, 60, 70, 80]\<rparr>),
     stbi_loadf = (\<lambda>p. \<lparr>hdr_width = 3, hdr_height = 5, hdr_data = Some (replicate 60 1)\<rparr>),
     set_image_ok = (\<lambda>n w h. True),
     fresh_plane = (\<lambda>n. replicate n 0),
     count_mipmaps = (\<lambda>s. count_mip_maps (nat (max (surface_width s) (surface_height s)))),
     build_next_mipmap = halve,
     expand_normals = (\<lambda>s. s),
     normalize_normal_map = (\<lambda>s. s),
     pack_normals = (\<lambda>s. s),
     output_header_ok = (\<lambda>c. True),
     compress_ok = (\<lambda>c f m. True),
     sdl_init_ok = True,
     create_window_ok = True,
     get_window_wm_info_ok = True,
     bgfx_init_ok = True,
     is_valid = (\<lambda>r. True),
     read_texture = (\<lambda>r. (2, replicate 16 0)),
     half_to_float = (\<lambda>h. real (unat h)),
     bgfx_frame = (\<lambda>k. if k = 0 then 1 else 2)\<rparr>"

text \<open>
  What the libraries have to do for \<^verbatim>\<open>compile_cube_map\<close> to reach its last line: every
  call succeeds, the panorama has an accepted size, and after every frame there is a later
  one whose number reaches the number any read returned.
\<close>

definition cooperative :: "world \<Rightarrow> string \<Rightarrow> bool" where
  "cooperative w input \<longleftrightarrow>
     sdl_init_ok w \<and> create_window_ok w \<and> get_window_wm_info_ok w \<and> bgfx_init_ok w
     \<and> hdr_data (stbi_loadf w input) \<noteq> None
     \<and> \<not> hdr_size_refused (hdr_width (stbi_loadf w input)) (hdr_height (stbi_loadf w input))
     \<and> (\<forall>r. is_valid w r)
     \<and> (\<forall>n a b. set_image_ok w n a b)
     \<and> (\<forall>c. output_header_ok w c)
     \<and> (\<forall>c face mip. compress_ok w c face mip)
     \<and> (\<forall>x. build_next_mipmap w x \<noteq> None)
     \<and> (\<forall>r k. \<exists>j\<ge>k. fst (read_texture w r) \<le> bgfx_frame w j)"

text \<open>A step that always runs through.\<close>

definition runs :: "(state \<Rightarrow> outcome) \<Rightarrow> bool" where
  "runs f \<longleftrightarrow> (\<forall>s. \<exists>s'. f s = Running s')"

section \<open>What a run shows\<close>

subsection \<open>The calls to the codec and the shader, in order\<close>

text \<open>
  The header, compress and uniform calls of a trace, without the pixels: what reaches the
  containers and the prefilter shader.
\<close>

datatype codec_call =
    Header Compressor TextureType int int int CompressionOptions string
  | Compressed Compressor int int CompressionOptions string
  | Uniform "real list"

fun visible :: "event \<Rightarrow> codec_call list" where
  "visible (OutputHeader c t w h m opts f) = [Header c t w h m opts f]"
| "visible (Compress c x face mip opts f) = [Compressed c face mip opts f]"
| "visible (SetUniform r xs) = [Uniform xs]"
| "visible e = []"

definition calls :: "state \<Rightarrow> codec_call list" where
  "calls s = concat (map visible (trace s))"

text \<open>The surfaces handed to \<^verbatim>\<open>compress\<close>, in order.\<close>

fun compressed_surface :: "event \<Rightarrow> Surface list" where
  "compressed_surface (Compress c x face mip opts f) = [x]"
| "compressed_surface e = []"

definition compressed_surfaces :: "state \<Rightarrow> Surface list" where
  "compressed_surfaces s = concat (map compressed_surface (trace s))"

text \<open>The cube side and mip level of the compress calls made on one compressor.\<close>

fun compressed_by :: "Compressor \<Rightarrow> codec_call \<Rightarrow> (int \<times> int) list" where
  "compressed_by c (Compressed c' face mip opts f) = (if c' = c then [(face, mip)] else [])"
| "compressed_by c e = []"

text \<open>The compressor and the mip count of the header calls.\<close>

fun header_mips :: "codec_call \<Rightarrow> (Compressor \<times> int) list" where
  "header_mips (Header c t w h m opts f) = [(c, m)]"
| "header_mips e = []"

fun uniform_values :: "codec_call \<Rightarrow> real list list" where
  "uniform_values (Uniform xs) = [xs]"
| "uniform_values e = []"

text \<open>The compressor and the options of the header and compress calls.\<close>

fun call_options :: "codec_call \<Rightarrow> (Compressor \<times> CompressionOptions) list" where
  "call_options (Header c t w h m opts f) = [(c, opts)]"
| "call_options (Compressed c face mip opts f) = [(c, opts)]"
| "call_options e = []"

text \<open>
  A step adds the calls \<open>X\<close>: where it runs through, the calls of the trace grow by \<open>X\<close>;
  where it returns, the exit code is 1; where it returns or hangs, they have grown by a
  prefix of \<open>X\<close>.
\<close>

definition adds :: "(state \<Rightarrow> outcome) \<Rightarrow> codec_call list \<Rightarrow> bool" where
  "adds f X \<longleftrightarrow>
     (\<forall>s. case f s of
        Running s' \<Rightarrow> calls s' = calls s @ X
      | Returned c s' \<Rightarrow> c = 1 \<and> (\<exists>Y. prefix Y X \<and> calls s' = calls s @ Y)
      | Hung s' \<Rightarrow> (\<exists>Y. prefix Y X \<and> calls s' = calls s @ Y))"

text \<open>
  The calls the text of \<^verbatim>\<open>compile_cube_map\<close> makes when nothing fails: the header of the
  cube map and its levels side by side, the header of the irradiance map and its six sides,
  the uniforms of the prefilter passes, the header of the prefilter map and its levels side
  by side.
\<close>

definition cube_map_calls ::
  "(real \<Rightarrow> real) \<Rightarrow> string \<Rightarrow> nat \<Rightarrow> string \<Rightarrow> nat \<Rightarrow> string \<Rightarrow> nat \<Rightarrow> Compression
     \<Rightarrow> codec_call list" where
  "cube_map_calls rnd output output_size output_irradiance irradiance_size output_prefilter
       prefilter_size compression =
     [Header cube_map_compressor TextureType_Cube (to_int output_size) (to_int output_size)
        (count_mip_maps output_size) (cube_map_compression_options compression) output]
     @ concat (map (\<lambda>side. map (\<lambda>mip_level.
           Compressed cube_map_compressor (int side) mip_level
             (cube_map_compression_options compression) output)
         [0..count_mip_maps output_size - 1]) [0..<6])
     @ [Header irradiance_compressor TextureType_Cube (to_int irradiance_size)
          (to_int irradiance_size) 1 irradiance_compression_options output_irradiance]
     @ map (\<lambda>side. Compressed irradiance_compressor (int side) 0
           irradiance_compression_options output_irradiance) [0..<6]
     @ concat (map (\<lambda>side. map (\<lambda>(mip_size, mip_level).
           Uniform (settings rnd output_size mip_level))
         (mip_sizes (to_uint16 prefilter_size) 0)) [0..<6])
     @ [Header prefilter_compressor TextureType_Cube (to_int prefilter_size)
          (to_int prefilter_size) (count_mip_maps prefilter_size)
          (prefilter_compression_options compression) output_prefilter]
     @ concat (map (\<lambda>side. map (\<lambda>(mip_size, mip_level).
           Compressed prefilter_compressor (int side) (int mip_level)
             (prefilter_compression_options compression) output_prefilter)
         (mip_sizes (to_uint16 prefilter_size) 0)) [0..<6])"

text \<open>The same for a two-dimensional texture: the header, then the levels in order.\<close>

definition texture_calls ::
  "int \<Rightarrow> int \<Rightarrow> int \<Rightarrow> CompressionOptions \<Rightarrow> string \<Rightarrow> codec_call list" where
  "texture_calls w h total_mip_levels compression_options output =
     Header compressor TextureType_2D w h total_mip_levels compression_options output
     # map (\<lambda>mip_level. Compressed compressor 0 mip_level compression_options output)
         [0..total_mip_levels - 1]"

subsection \<open>Reads and the frames that complete them\<close>

text \<open>
  Where a trace stands with the buffer that \<^verbatim>\<open>bgfx::readTexture\<close> fills: no read asked for;
  a read of \<open>r\<close> asked for and no frame number seen yet that reaches the number the call
  returned; such a frame number seen; or the buffer used to fill a surface before that.
\<close>

datatype sync = Idle | Waiting resource "32 word" | Ready resource | Violated

fun sync_step :: "sync \<Rightarrow> event \<Rightarrow> sync" where
  "sync_step Violated e = Violated"
| "sync_step st (ReadTexture r frame_id) = Waiting r frame_id"
| "sync_step (Waiting r frame_id) (Frame v) =
     (if frame_id \<le> v then Ready r else Waiting r frame_id)"
| "sync_step st (SetImage (surface_of r) w h) = (if st = Ready r then st else Violated)"
| "sync_step st e = st"

definition sync_of :: "event list \<Rightarrow> sync" where
  "sync_of es = foldl sync_step Idle es"

definition read_backs_waited :: "state \<Rightarrow> bool" where
  "read_backs_waited s \<longleftrightarrow> sync_of (trace s) \<noteq> Violated"

text \<open>
  From a state where \<open>P\<close> holds a step runs through to a state where \<open>Q\<close> holds, and
  wherever it stops no buffer has been used too early.
\<close>

definition waits :: "(state \<Rightarrow> bool) \<Rightarrow> (state \<Rightarrow> outcome) \<Rightarrow> (state \<Rightarrow> bool) \<Rightarrow> bool" where
  "waits P f Q \<longleftrightarrow>
     (\<forall>s. P s \<longrightarrow>
        (case f s of
           Running s' \<Rightarrow> Q s'
         | Returned c s' \<Rightarrow> read_backs_waited s'
         | Hung s' \<Rightarrow> read_backs_waited s'))"

definition ready :: "resource \<Rightarrow> state \<Rightarrow> bool" where
  "ready r s \<longleftrightarrow> sync_of (trace s) = Ready r"

text \<open>The number of surfaces filled from a read-back buffer.\<close>

fun read_back_image :: "event \<Rightarrow> resource list" where
  "read_back_image (SetImage (surface_of r) w h) = [r]"
| "read_back_image e = []"

subsection \<open>Sizes\<close>

definition power_of_two :: "int \<Rightarrow> bool" where
  "power_of_two n \<longleftrightarrow> (\<exists>k::nat. n = 2 ^ k)"

section \<open>Properties\<close>

subsection \<open>Codec options\<close>

text \<open>
  C9. For the parallax class the two compressing tiers choose the same options, the
  single-channel block format BC4, and the tier without compression chooses a raw layout
  of 8 bits per pixel, all of them in the red mask. The irradiance options are 16-bit
  float channels without compression; they are a constant, so no tier changes them.
\<close>

theorem parallax_and_irradiance_options:
  "parallax_options GOOD_BUT_SLOW = parallax_options POOR_BUT_FAST
   \<and> format (parallax_options GOOD_BUT_SLOW) = Some Format_BC4
   \<and> parallax_options NO_COMPRESSION =
       \<lparr>format = Some Format_RGBA, pixel_format = Some (Masks 8 255 0 0 0),
        pixel_type = None\<rparr>
   \<and> irradiance_compression_options =
       \<lparr>format = Some Format_RGB, pixel_format = Some (Sizes 16 16 16 16),
        pixel_type = Some PixelType_Float\<rparr>"
  by (simp add: setFormat_def setPixelFormat_def setPixelType_def default_options_def
      irradiance_compression_options_def)

subsection \<open>The blue channel of a normal map\<close>

lemma blue_normal_bounds:
  assumes m: "mono rnd" and z: "rnd 0 = 0" and h: "rnd (1 / 2) = 1 / 2" and o: "rnd 1 = 1"
  shows "1 / 2 \<le> blue_normal rnd r g \<and> blue_normal rnd r g \<le> 1"
proof -
  define red where "red = rnd (rnd (r * 2) - 1)"
  define green where "green = rnd (rnd (g * 2) - 1)"
  define dot where "dot = rnd (rnd (red * red) + rnd (green * green))"
  have up: "\<And>x. 0 \<le> x \<Longrightarrow> 0 \<le> rnd x" using monoD[OF m] z by metis
  have le1: "\<And>x. x \<le> 1 \<Longrightarrow> rnd x \<le> 1" using monoD[OF m] o by metis
  have leh: "\<And>x. x \<le> 1 / 2 \<Longrightarrow> rnd x \<le> 1 / 2" using monoD[OF m] h by metis
  have geh: "\<And>x. 1 / 2 \<le> x \<Longrightarrow> 1 / 2 \<le> rnd x" using monoD[OF m] h by metis
  have d0: "0 \<le> dot" unfolding dot_def by (intro up add_nonneg_nonneg) simp_all
  show ?thesis
  proof (cases "dot < 1")
    case True
    let ?a = "rnd (1 - dot)"
    have a: "0 \<le> ?a" "?a \<le> 1" using True d0 by (auto intro: up le1)
    let ?b = "rnd (sqrt ?a)"
    have b: "0 \<le> ?b" "?b \<le> 1" using a by (auto intro!: up le1 simp: real_sqrt_le_1_iff)
    let ?c = "rnd (?b * 0.5)"
    have c: "0 \<le> ?c" "?c \<le> 1 / 2"
    proof -
      show "0 \<le> ?c" by (rule up) (use b in simp)
      show "?c \<le> 1 / 2" by (rule leh) (use b in simp)
    qed
    let ?z = "rnd (?c + 0.5)"
    have "1 / 2 \<le> ?z" "?z \<le> 1"
    proof -
      show "1 / 2 \<le> ?z" by (rule geh) (use c in simp)
      show "?z \<le> 1" by (rule le1) (use c in simp)
    qed
    moreover have "blue_normal rnd r g = ?z"
      using True by (simp add: blue_normal_def Let_def dot_def red_def green_def)
    ultimately show ?thesis by simp
  next
    case False
    then show ?thesis by (simp add: blue_normal_def Let_def dot_def red_def green_def)
  qed
qed



text \<open>
  C10. Whatever the red and green values, every value of the reconstructed blue channel
  lies between 1/2 and 1, for any rounding that is monotone and leaves 0, 1/2 and 1 as
  they are.
\<close>

theorem blue_normal_channel_range:
  assumes "mono rnd" and "rnd 0 = 0" and "rnd (1 / 2) = 1 / 2" and "rnd 1 = 1"
  shows "\<forall>z \<in> set (blue_normal_channel rnd n reds greens). 1 / 2 \<le> z \<and> z \<le> 1"
  using blue_normal_bounds [OF assms] by (auto simp: blue_normal_channel_def)

theorem blue_normal_channel_range_witness:
  "mono (\<lambda>x::real. x)
   \<and> blue_normal_channel (\<lambda>x. x) 2 [1 / 2, 1] [1 / 2, 1] = [1, 1 / 2]
   \<and> list_all (\<lambda>z. 1 / 2 \<le> z \<and> z \<le> 1)
        (blue_normal_channel (\<lambda>x. x) 2 [1 / 2, 1] [1 / 2, 1])"
proof -
  have m: "mono (\<lambda>x::real. x)" by (simp add: mono_def)
  have "[0..<2] = [0, 1]" by (simp add: upt_rec)
  then have "blue_normal_channel (\<lambda>x. x) 2 [1 / 2, 1] [1 / 2, 1] = [1, 1 / 2]"
    by (simp add: blue_normal_channel_def blue_normal_def Let_def)
  then show ?thesis
    using m blue_normal_channel_range [OF m, of 2 "[1 / 2, 1]" "[1 / 2, 1]"]
    by (simp add: list_all_iff)
qed

subsection \<open>Steps and the calls they add\<close>

lemma calls_emit: "calls (emit es s) = calls s @ concat (map visible es)"
  by (simp add: calls_def emit_def)

lemma calls_update [simp]:
  "calls (s\<lparr>the_surface := x\<rparr>) = calls s"
  "calls (s\<lparr>the_normal := x\<rparr>) = calls s"
  "calls (s\<lparr>the_metalness_ambient_occlusion := x\<rparr>) = calls s"
  "calls (s\<lparr>current_view := v\<rparr>) = calls s"
  "calls (s\<lparr>frames := n\<rparr>) = calls s"
  by (simp_all add: calls_def)

lemma concat_map_Nil [simp]: "concat (map (\<lambda>x. []) xs) = []"
  by (induction xs) simp_all

lemma adds_nil: "adds (seq []) []"
  by (simp add: adds_def)

lemma addsD:
  assumes "adds f X"
  shows "f s = Running s' \<Longrightarrow> calls s' = calls s @ X"
    and "f s = Returned c s' \<Longrightarrow> c = 1 \<and> (\<exists>Y. prefix Y X \<and> calls s' = calls s @ Y)"
    and "f s = Hung s' \<Longrightarrow> (\<exists>Y. prefix Y X \<and> calls s' = calls s @ Y)"
proof -
  from assms have *: "case f s of
        Running s' \<Rightarrow> calls s' = calls s @ X
      | Returned c s' \<Rightarrow> c = 1 \<and> (\<exists>Y. prefix Y X \<and> calls s' = calls s @ Y)
      | Hung s' \<Rightarrow> (\<exists>Y. prefix Y X \<and> calls s' = calls s @ Y)"
    unfolding adds_def by (rule spec)
  show "f s = Running s' \<Longrightarrow> calls s' = calls s @ X" using * by simp
  show "f s = Returned c s' \<Longrightarrow> c = 1 \<and> (\<exists>Y. prefix Y X \<and> calls s' = calls s @ Y)"
    using * by simp
  show "f s = Hung s' \<Longrightarrow> (\<exists>Y. prefix Y X \<and> calls s' = calls s @ Y)" using * by simp
qed

lemma adds_then:
  assumes f: "adds f X" and g: "adds g Y"
  shows "adds (\<lambda>s. and_then (f s) g) (X @ Y)"
  unfolding adds_def
proof
  fix s
  show "case and_then (f s) g of
          Running s' \<Rightarrow> calls s' = calls s @ X @ Y
        | Returned c s' \<Rightarrow> c = 1 \<and> (\<exists>Z. prefix Z (X @ Y) \<and> calls s' = calls s @ Z)
        | Hung s' \<Rightarrow> \<exists>Z. prefix Z (X @ Y) \<and> calls s' = calls s @ Z"
  proof (cases "f s")
    case (Running s1)
    note f1 = addsD(1)[OF f Running]
    show ?thesis
    proof (cases "g s1")
      case (Running s2)
      with addsD(1)[OF g Running] f1 \<open>f s = Running s1\<close> show ?thesis by simp
    next
      case (Returned c s2)
      from addsD(2)[OF g Returned] obtain Z where "c = 1" "prefix Z Y" "calls s2 = calls s1 @ Z"
        by blast
      with f1 \<open>f s = Running s1\<close> Returned show ?thesis
        by (auto intro!: exI[of _ "X @ Z"])
    next
      case (Hung s2)
      from addsD(3)[OF g Hung] obtain Z where "prefix Z Y" "calls s2 = calls s1 @ Z"
        by blast
      with f1 \<open>f s = Running s1\<close> Hung show ?thesis
        by (auto intro!: exI[of _ "X @ Z"])
    qed
  next
    case (Returned c s1)
    from addsD(2)[OF f Returned] obtain Z where "c = 1" "prefix Z X" "calls s1 = calls s @ Z"
      by blast
    with Returned show ?thesis by (auto intro!: exI[of _ Z] intro: prefix_prefix)
  next
    case (Hung s1)
    from addsD(3)[OF f Hung] obtain Z where "prefix Z X" "calls s1 = calls s @ Z"
      by blast
    with Hung show ?thesis by (auto intro!: exI[of _ Z] intro: prefix_prefix)
  qed
qed

lemma seq_Cons_fun: "seq (f # fs) = (\<lambda>s. and_then (f s) (seq fs))"
  by (rule ext) simp

lemma for_each_Cons_fun: "for_each body (x # xs) = (\<lambda>s. and_then (body x s) (for_each body xs))"
  by (rule ext) simp

lemma adds_cons: "adds f X \<Longrightarrow> adds (seq fs) Y \<Longrightarrow> adds (seq (f # fs)) (X @ Y)"
  unfolding seq_Cons_fun by (rule adds_then)

lemma adds_skip: "adds f [] \<Longrightarrow> adds (seq fs) Y \<Longrightarrow> adds (seq (f # fs)) Y"
  using adds_cons[of f "[]" fs Y] by simp

lemma adds_for_each:
  "(\<And>x. x \<in> set xs \<Longrightarrow> adds (body x) (g x)) \<Longrightarrow> adds (for_each body xs) (concat (map g xs))"
proof (induction xs)
  case Nil
  then show ?case by (simp add: adds_def)
next
  case (Cons x xs)
  have "adds (\<lambda>s. and_then (body x s) (for_each body xs)) (g x @ concat (map g xs))"
    by (rule adds_then) (use Cons in auto)
  then show ?case unfolding for_each_Cons_fun by simp
qed

lemma adds_for_each_silent:
  "(\<And>x. x \<in> set xs \<Longrightarrow> adds (body x) []) \<Longrightarrow> adds (for_each body xs) []"
  using adds_for_each[of xs body "\<lambda>x. []"] by simp

lemma adds_require: "concat (map visible es) = [] \<Longrightarrow> adds (require es ok msg) []"
  by (simp add: adds_def require_def calls_emit)

lemma adds_require_cleanup:
  "concat (map visible es) = [] \<Longrightarrow> concat (map visible cleanup) = []
   \<Longrightarrow> adds (require_cleanup es ok msg cleanup) []"
  by (simp add: adds_def require_cleanup_def calls_emit)

lemma adds_require_quiet: "adds (require_quiet es ok) (concat (map visible es))"
  by (simp add: adds_def require_quiet_def calls_emit)

lemma adds_compress:
  "adds (\<lambda>s. require_quiet [Compress c (x s) face mip opts f] ok s) [Compressed c face mip opts f]"
  by (simp add: adds_def require_quiet_def calls_emit)

lemma adds_create: "adds (create w r msg) []"
  by (simp add: create_def adds_require)

lemma adds_create_program: "adds (create_program w sh a b c) []"
  unfolding create_program_def
  by (intro adds_skip adds_nil adds_create adds_require_cleanup) simp_all

lemma adds_next_view: "adds next_view []"
  by (simp add: adds_def next_view_def)

lemma adds_call: "adds (\<lambda>s. call (es s) s) X" if "\<And>s. concat (map visible (es s)) = X"
  by (simp add: adds_def call_def calls_emit that)

lemma adds_render: 
  "adds (render w fb msg uniforms sh) (concat (map visible uniforms))"
  unfolding render_def
  by (rule adds_skip[OF adds_create]) (simp add: adds_def call_def calls_emit)

lemma wait_for_frame_trace:
  assumes "wait_for_frame w t s = Some s'"
  shows "\<exists>vs v. trace s' = trace s @ map Frame vs @ [Frame v] \<and> t \<le> v \<and> (\<forall>u \<in> set vs. u < t)"
proof (rule wait_for_frame.raw_induct
    [where P = "\<lambda>w t s s'. \<exists>vs v. trace s' = trace s @ map Frame vs @ [Frame v] \<and> t \<le> v
       \<and> (\<forall>u \<in> set vs. u < t)", OF _ assms])
  fix wait :: "world \<Rightarrow> 32 word \<Rightarrow> state \<Rightarrow> state option"
    and w :: world and t :: "32 word" and s s' :: state
  assume IH: "\<And>w t s s'. wait w t s = Some s' \<Longrightarrow>
      \<exists>vs v. trace s' = trace s @ map Frame vs @ [Frame v] \<and> t \<le> v \<and> (\<forall>u \<in> set vs. u < t)"
  assume eq: "(let current_frame_id = bgfx_frame w (frames s);
          s' = s\<lparr>trace := trace s @ [Frame current_frame_id], frames := Suc (frames s)\<rparr>
      in if current_frame_id < t then wait w t s' else Some s') = Some s'"
  show "\<exists>vs v. trace s' = trace s @ map Frame vs @ [Frame v] \<and> t \<le> v \<and> (\<forall>u \<in> set vs. u < t)"
  proof (cases "bgfx_frame w (frames s) < t")
    case True
    let ?s1 = "s\<lparr>trace := trace s @ [Frame (bgfx_frame w (frames s))], frames := Suc (frames s)\<rparr>"
    from eq True have "wait w t ?s1 = Some s'" by (simp add: Let_def)
    from IH[OF this] obtain vs v where
      "trace s' = trace ?s1 @ map Frame vs @ [Frame v]" "t \<le> v" "\<forall>u \<in> set vs. u < t" by blast
    with True show ?thesis
      by (intro exI[of _ "bgfx_frame w (frames s) # vs"] exI[of _ v]) simp
  next
    case False
    with eq have "s' = s\<lparr>trace := trace s @ [Frame (bgfx_frame w (frames s))], frames := Suc (frames s)\<rparr>"
      by (simp add: Let_def)
    with False show ?thesis
      by (intro exI[of _ "[]"] exI[of _ "bgfx_frame w (frames s)"]) simp
  qed
qed

lemma wait_for_frame_calls: "wait_for_frame w t s = Some s' \<Longrightarrow> calls s' = calls s"
  by (drule wait_for_frame_trace) (auto simp: calls_def)

lemma adds_read_back: "adds (read_back w r src msg) []"
  by (auto simp: adds_def read_back_def calls_emit Let_def dest: wait_for_frame_calls split: option.splits)

lemma adds_set_read_back_image: "adds (set_read_back_image w r sz msg) []"
  by (auto simp: adds_def set_read_back_image_def calls_emit)

lemma adds_last: "adds f X \<Longrightarrow> adds (seq [f]) X"
  using adds_cons[OF _ adds_nil, of f X] by simp

lemma adds_header:
  "adds (require_quiet [OutputHeader c t w h m opts f] ok) [Header c t w h m opts f]"
  using adds_require_quiet[of "[OutputHeader c t w h m opts f]" ok] by simp

lemma adds_for_each_single:
  "(\<And>x. x \<in> set xs \<Longrightarrow> adds (body x) [g x]) \<Longrightarrow> adds (for_each body xs) (map g xs)"
  using adds_for_each[of xs body "\<lambda>x. [g x]"] by simp

lemma adds_case_prod:
  "(\<And>a b. adds (f a b) (g a b)) \<Longrightarrow> adds (case_prod f x) (case_prod g x)"
  by (cases x) simp

lemma adds_case_prod_single:
  "(\<And>a b. adds (f a b) [g a b]) \<Longrightarrow> adds (case_prod f x) [case_prod g x]"
  by (cases x) simp

lemma adds_case_prod_silent:
  "(\<And>a b. adds (f a b) []) \<Longrightarrow> adds (case_prod f x) []"
  by (cases x) simp

lemma adds_build:
  "adds (\<lambda>s. if c then (case build_next_mipmap w (the_surface s) of
                  None \<Rightarrow> Returned 1 (emit [BuildNextMipmap n, Print msg] s)
                | Some m \<Rightarrow> Running (emit [BuildNextMipmap n] (s\<lparr>the_surface := m\<rparr>)))
          else Running s) []"
  by (auto simp: adds_def calls_emit split: option.splits)

lemma adds_cube_map_mip_level:
  "adds (cube_map_mip_level w output opts n side mip_level)
     [Compressed cube_map_compressor (int side) mip_level opts output]"
  unfolding cube_map_mip_level_def
  by (rule adds_cons[OF adds_compress adds_last[OF adds_build], simplified])

lemma adds_cube_side_read_back:
  "adds (cube_side_read_back w output output_size opts n side)
     (map (\<lambda>mip_level. Compressed cube_map_compressor (int side) mip_level opts output)
        [0..n - 1])"
  unfolding cube_side_read_back_def
  apply (rule adds_skip[OF adds_read_back])
  apply (rule adds_skip[OF adds_set_read_back_image])
  apply (rule adds_cons[OF _ adds_last[OF adds_next_view], simplified])
  apply (rule adds_for_each_single)
  apply (rule adds_cube_map_mip_level)
  done

lemma adds_irradiance_read_back:
  "adds (irradiance_read_back w output_irradiance irradiance_size side)
     [Compressed irradiance_compressor (int side) 0 irradiance_compression_options
        output_irradiance]"
  unfolding irradiance_read_back_def
  apply (rule adds_skip[OF adds_read_back])
  apply (rule adds_skip[OF adds_set_read_back_image])
  apply (rule adds_cons[OF adds_compress adds_last[OF adds_next_view], simplified])
  done

lemma adds_prefilter_read_back:
  "adds (prefilter_read_back w output_prefilter opts side x)
     [case x of (mip_size, mip_level) \<Rightarrow>
        Compressed prefilter_compressor (int side) (int mip_level) opts output_prefilter]"
  unfolding prefilter_read_back_def
  apply (rule adds_case_prod_single)
  apply (rule adds_skip[OF adds_read_back])
  apply (rule adds_skip[OF adds_set_read_back_image])
  apply (rule adds_cons[OF adds_compress adds_last[OF adds_next_view], simplified])
  done

lemma adds_render_silent: "adds (seq [render w fb msg [] sh, next_view]) []"
  using adds_cons[OF adds_render adds_last[OF adds_next_view], of w fb msg "[]" sh] by simp

lemma adds_render_uniform:
  "adds (seq [render w fb msg [SetUniform r xs] sh, next_view]) [Uniform xs]"
  using adds_cons[OF adds_render adds_last[OF adds_next_view], of w fb msg "[SetUniform r xs]" sh]
  by simp

lemma adds_assign: "adds (\<lambda>s. Running (s\<lparr>current_view := v\<rparr>)) []"
  by (simp add: adds_def)

lemma adds_cube_map_statements:
  "adds (seq (cube_map_statements w input output output_size output_irradiance irradiance_size
            output_prefilter prefilter_size compression))
     (cube_map_calls (fl w) output output_size output_irradiance irradiance_size
        output_prefilter prefilter_size compression)"
  unfolding cube_map_statements_def cube_map_calls_def Let_def
  apply (rule adds_skip, rule adds_require, simp)
  apply (rule adds_skip, rule adds_require, simp)
  apply (rule adds_skip, rule adds_require, simp)
  apply (rule adds_skip, rule adds_require, simp)
  apply (rule adds_skip, rule adds_require, simp)
  apply (rule adds_skip, rule adds_require, simp)
  apply (rule adds_skip, rule adds_create)
  apply (rule adds_skip, rule adds_create)
  apply (rule adds_skip, rule adds_create)
  apply (rule adds_skip, rule adds_for_each_silent, rule adds_create)
  apply (rule adds_skip, rule adds_create_program)
  apply (rule adds_skip, rule adds_assign)
  apply (rule adds_skip, rule adds_for_each_silent, rule adds_render_silent)
  apply (rule adds_cons, rule adds_header)
  apply (rule adds_cons, rule adds_for_each, rule adds_cube_side_read_back)
  apply (rule adds_skip, rule adds_create)
  apply (rule adds_skip, rule adds_for_each_silent, rule adds_for_each_silent,
         rule adds_case_prod_silent, rule adds_render_silent)
  apply (rule adds_skip, rule adds_for_each_silent, rule adds_create)
  apply (rule adds_skip, rule adds_create_program)
  apply (rule adds_skip, rule adds_for_each_silent, rule adds_render_silent)
  apply (rule adds_cons, rule adds_header)
  apply (rule adds_cons, rule adds_for_each_single, rule adds_irradiance_read_back)
  apply (rule adds_skip, rule adds_for_each_silent, rule adds_for_each_silent,
         rule adds_case_prod_silent, rule adds_create)
  apply (rule adds_skip, rule adds_create_program)
  apply (rule adds_skip, rule adds_create)
  apply (rule adds_cons, rule adds_for_each, rule adds_for_each_single,
         rule adds_case_prod_single, rule adds_render_uniform)
  apply (rule adds_cons, rule adds_header)
  apply (rule adds_last, rule adds_for_each, rule adds_for_each_single,
         rule adds_prefilter_read_back)
  done

lemma seq_append: "seq (fs @ gs) s = and_then (seq fs s) (seq gs)"
proof (induction fs arbitrary: s)
  case Nil
  then show ?case by simp
next
  case (Cons f fs)
  show ?case by (cases "f s") (simp_all add: Cons)
qed

lemma calls_initial: "calls initial_state = []"
  by (simp add: calls_def initial_state_def)

lemma adds_run:
  assumes a: "adds (seq fs) X"
  shows "prefix (calls (final (seq (fs @ [return 0]) initial_state))) X
    \<and> (exit_code (seq (fs @ [return 0]) initial_state) = Some 0 \<longrightarrow>
         calls (final (seq (fs @ [return 0]) initial_state)) = X)"
proof (cases "seq fs initial_state")
  case (Running s')
  from addsD(1)[OF a Running] show ?thesis
    by (simp add: seq_append Running return_def calls_initial)
next
  case (Returned c s')
  from addsD(2)[OF a Returned] show ?thesis
    by (auto simp: seq_append Returned calls_initial)
next
  case (Hung s')
  from addsD(3)[OF a Hung] show ?thesis
    by (auto simp: seq_append Hung calls_initial)
qed

lemma compile_cube_map_calls:
  "prefix (calls (final (compile_cube_map w input output output_size output_irradiance
       irradiance_size output_prefilter prefilter_size compression)))
     (cube_map_calls (fl w) output output_size output_irradiance irradiance_size
        output_prefilter prefilter_size compression)
   \<and> (exit_code (compile_cube_map w input output output_size output_irradiance
       irradiance_size output_prefilter prefilter_size compression) = Some 0 \<longrightarrow>
     calls (final (compile_cube_map w input output output_size output_irradiance
       irradiance_size output_prefilter prefilter_size compression)) =
     cube_map_calls (fl w) output output_size output_irradiance irradiance_size
        output_prefilter prefilter_size compression)"
  unfolding compile_cube_map_def by (rule adds_run[OF adds_cube_map_statements])

lemma concat_map_concat:
  "concat (map f (concat xss)) = concat (map (\<lambda>xs. concat (map f xs)) xss)"
  by (induction xss) simp_all

lemma prefix_concat_map: "prefix xs ys \<Longrightarrow> prefix (concat (map f xs)) (concat (map f ys))"
  by (auto simp: prefix_def)

lemma compressed_by_cube_map_calls:
  "concat (map (compressed_by cube_map_compressor)
     (cube_map_calls rnd output output_size output_irradiance irradiance_size
        output_prefilter prefilter_size compression)) =
   concat (map (\<lambda>side. map (\<lambda>mip_level. (int side, mip_level))
     [0..count_mip_maps output_size - 1]) [0..<6])"
  "concat (map (compressed_by irradiance_compressor)
     (cube_map_calls rnd output output_size output_irradiance irradiance_size
        output_prefilter prefilter_size compression)) =
   map (\<lambda>side. (int side, 0)) [0..<6]"
  "concat (map (compressed_by prefilter_compressor)
     (cube_map_calls rnd output output_size output_irradiance irradiance_size
        output_prefilter prefilter_size compression)) =
   concat (map (\<lambda>side. map (\<lambda>(mip_size, mip_level). (int side, int mip_level))
     (mip_sizes (to_uint16 prefilter_size) 0)) [0..<6])"
  unfolding cube_map_calls_def
  by (simp_all add: concat_map_concat o_def split_def concat_map_singleton del: upt_Suc)

lemma header_mips_cube_map_calls:
  "concat (map header_mips
     (cube_map_calls rnd output output_size output_irradiance irradiance_size
        output_prefilter prefilter_size compression)) =
   [(cube_map_compressor, count_mip_maps output_size), (irradiance_compressor, 1),
    (prefilter_compressor, count_mip_maps prefilter_size)]"
  unfolding cube_map_calls_def
  by (simp add: concat_map_concat o_def split_def del: upt_Suc)

lemma uniform_values_cube_map_calls:
  "concat (map uniform_values
     (cube_map_calls rnd output output_size output_irradiance irradiance_size
        output_prefilter prefilter_size compression)) =
   concat (map (\<lambda>side. map (\<lambda>(mip_size, mip_level). settings rnd output_size mip_level)
     (mip_sizes (to_uint16 prefilter_size) 0)) [0..<6])"
  unfolding cube_map_calls_def
  by (simp add: concat_map_concat o_def split_def concat_map_singleton del: upt_Suc)

subsection \<open>Runs in which nothing fails\<close>

lemma runs_nil: "runs (seq [])"
  by (simp add: runs_def)

lemma runs_cons: "runs f \<Longrightarrow> runs (seq fs) \<Longrightarrow> runs (seq (f # fs))"
  unfolding runs_def
proof
  fix s
  assume f: "\<forall>s. \<exists>s'. f s = Running s'" and g: "\<forall>s. \<exists>s'. seq fs s = Running s'"
  from f obtain s1 where s1: "f s = Running s1" by blast
  from g obtain s2 where "seq fs s1 = Running s2" by blast
  with s1 show "\<exists>s'. seq (f # fs) s = Running s'" by simp
qed

lemma runs_for_each: "(\<And>x. x \<in> set xs \<Longrightarrow> runs (body x)) \<Longrightarrow> runs (for_each body xs)"
proof (induction xs)
  case Nil
  then show ?case by (simp add: runs_def)
next
  case (Cons x xs)
  then have b: "runs (body x)" and r: "runs (for_each body xs)" by simp_all
  show ?case unfolding runs_def
  proof
    fix s
    from b obtain s1 where s1: "body x s = Running s1" unfolding runs_def by blast
    from r obtain s2 where "for_each body xs s1 = Running s2" unfolding runs_def by blast
    with s1 show "\<exists>s'. for_each body (x # xs) s = Running s'" by simp
  qed
qed

lemma runs_case_prod: "(\<And>a b. runs (f a b)) \<Longrightarrow> runs (case_prod f x)"
  by (cases x) simp

lemma runs_require: "ok \<Longrightarrow> runs (require es ok msg)"
  by (simp add: runs_def require_def)

lemma runs_require_quiet: "ok \<Longrightarrow> runs (require_quiet es ok)"
  by (simp add: runs_def require_quiet_def)

lemma runs_compress: "ok \<Longrightarrow> runs (\<lambda>s. require_quiet (es s) ok s)"
  by (simp add: runs_def require_quiet_def)

lemma runs_require_cleanup: "ok \<Longrightarrow> runs (require_cleanup es ok msg cleanup)"
  by (simp add: runs_def require_cleanup_def)

lemma runs_create: "is_valid w r \<Longrightarrow> runs (create w r msg)"
  by (simp add: create_def runs_require)

lemma runs_create_program: "\<forall>r. is_valid w r \<Longrightarrow> runs (create_program w sh a b c)"
  unfolding create_program_def
  by (intro runs_cons runs_nil runs_create runs_require_cleanup) simp_all

lemma runs_next_view: "runs next_view"
  by (simp add: runs_def next_view_def)

lemma runs_assign: "runs (\<lambda>s. Running (g s))"
  by (simp add: runs_def)

lemma runs_render: "\<forall>r. is_valid w r \<Longrightarrow> runs (seq [render w fb msg uniforms sh, next_view])"
  unfolding render_def
  by (intro runs_cons runs_nil runs_create runs_next_view) (simp_all add: runs_def call_def)

lemma wait_for_frame_returns:
  assumes "frames s \<le> j" and "t \<le> bgfx_frame w j"
  shows "\<exists>s'. wait_for_frame w t s = Some s'"
  using assms
proof (induction "j - frames s" arbitrary: s)
  case 0
  then have "j = frames s" by simp
  with 0 show ?case by (subst wait_for_frame.simps) (auto simp: Let_def)
next
  case (Suc n)
  show ?case
  proof (cases "bgfx_frame w (frames s) < t")
    case True
    let ?s1 = "s\<lparr>trace := trace s @ [Frame (bgfx_frame w (frames s))], frames := Suc (frames s)\<rparr>"
    from Suc(2) have "n = j - frames ?s1" "frames ?s1 \<le> j" by simp_all
    from Suc(1)[OF this Suc(4)] obtain s' where "wait_for_frame w t ?s1 = Some s'" by blast
    with True show ?thesis by (subst wait_for_frame.simps) (simp add: Let_def)
  next
    case False
    then show ?thesis by (subst wait_for_frame.simps) (simp add: Let_def)
  qed
qed

lemma runs_read_back:
  assumes "is_valid w r" and "\<forall>k. \<exists>j\<ge>k. fst (read_texture w r) \<le> bgfx_frame w j"
  shows "runs (read_back w r src msg)"
  unfolding runs_def
proof
  fix s
  let ?s1 = "emit [Create r, Blit (current_view s) r src, ReadTexture r (fst (read_texture w r))] s"
  from assms(2) obtain j where "frames ?s1 \<le> j" "fst (read_texture w r) \<le> bgfx_frame w j"
    by blast
  from wait_for_frame_returns[OF this] obtain s' where
    "wait_for_frame w (fst (read_texture w r)) ?s1 = Some s'" by blast
  with assms(1) show "\<exists>s'. read_back w r src msg s = Running s'"
    by (simp add: read_back_def Let_def)
qed

lemma runs_set_read_back_image:
  "set_image_ok w (surface_of r) sz sz \<Longrightarrow> runs (set_read_back_image w r sz msg)"
  by (simp add: runs_def set_read_back_image_def)

lemma cooperativeD:
  assumes "cooperative w input"
  shows "sdl_init_ok w" "create_window_ok w" "get_window_wm_info_ok w" "bgfx_init_ok w"
    "hdr_data (stbi_loadf w input) \<noteq> None"
    "\<not> hdr_size_refused (hdr_width (stbi_loadf w input)) (hdr_height (stbi_loadf w input))"
    "\<forall>r. is_valid w r" "\<And>r. is_valid w r"
    "\<And>n a b. set_image_ok w n a b"
    "\<And>c. output_header_ok w c"
    "\<And>c face mip. compress_ok w c face mip"
    "\<And>x. build_next_mipmap w x \<noteq> None"
    "\<And>r. \<forall>k. \<exists>j\<ge>k. fst (read_texture w r) \<le> bgfx_frame w j"
  using assms unfolding cooperative_def by blast+

lemma runs_cube_map_mip_level:
  assumes "cooperative w input"
  shows "runs (cube_map_mip_level w output opts n side mip_level)"
  unfolding cube_map_mip_level_def
  apply (rule runs_cons, rule runs_compress, rule cooperativeD(11)[OF assms])
  apply (rule runs_cons[OF _ runs_nil])
  using cooperativeD(12)[OF assms] apply (auto simp: runs_def split: option.splits)
  done

lemma runs_cube_side_read_back:
  assumes "cooperative w input"
  shows "runs (cube_side_read_back w output output_size opts n side)"
  unfolding cube_side_read_back_def
  by (intro runs_cons runs_nil runs_read_back runs_set_read_back_image runs_for_each
      runs_cube_map_mip_level[OF assms] runs_next_view cooperativeD[OF assms])

lemma runs_irradiance_read_back:
  assumes "cooperative w input"
  shows "runs (irradiance_read_back w output_irradiance irradiance_size side)"
  unfolding irradiance_read_back_def
  by (intro runs_cons runs_nil runs_read_back runs_set_read_back_image runs_compress
      runs_next_view cooperativeD[OF assms])

lemma runs_prefilter_read_back:
  assumes "cooperative w input"
  shows "runs (prefilter_read_back w output_prefilter opts side x)"
  unfolding prefilter_read_back_def
  by (intro runs_case_prod runs_cons runs_nil runs_read_back runs_set_read_back_image
      runs_compress runs_next_view cooperativeD[OF assms])

lemma runs_cube_map_statements:
  assumes "cooperative w input"
  shows "runs (seq (cube_map_statements w input output output_size output_irradiance
            irradiance_size output_prefilter prefilter_size compression))"
  unfolding cube_map_statements_def Let_def
  by (intro runs_cons runs_nil runs_for_each runs_case_prod runs_require runs_require_quiet
      runs_create runs_create_program runs_render runs_assign
      runs_cube_side_read_back[OF assms] runs_irradiance_read_back[OF assms]
      runs_prefilter_read_back[OF assms] cooperativeD[OF assms])

lemma cooperative_returns_0:
  assumes "cooperative w input"
  shows "exit_code (compile_cube_map w input output output_size output_irradiance
            irradiance_size output_prefilter prefilter_size compression) = Some 0"
proof -
  from runs_cube_map_statements[OF assms] obtain s' where
    "seq (cube_map_statements w input output output_size output_irradiance
            irradiance_size output_prefilter prefilter_size compression) initial_state
     = Running s'"
    unfolding runs_def by blast
  then show ?thesis by (simp add: compile_cube_map_def seq_append return_def)
qed

lemma world_ok_cooperative: "cooperative world_ok input"
  unfolding cooperative_def
  by (auto simp: world_ok_def hdr_size_refused_def halve_def Let_def intro: exI[of _ "Suc _"])

subsection \<open>Mip levels\<close>

lemma count_mip_maps_loop_floorlog:
  "1 \<le> n \<Longrightarrow> count_mip_maps_loop n r = r + int (floorlog 2 n) - 1"
proof (induction n r rule: count_mip_maps_loop.induct)
  case (1 sz result)
  show ?case
  proof (cases "sz > 1")
    case True
    then have "sz div 2 \<ge> 1" by simp
    from 1(1)[OF True this] True show ?thesis
      by (subst count_mip_maps_loop.simps, subst compute_floorlog) simp
  next
    case False
    with 1(2) have "sz = 1" by simp
    then show ?thesis
      by (subst count_mip_maps_loop.simps, subst compute_floorlog) (simp add: compute_floorlog)
  qed
qed

lemma count_mip_maps_floorlog: "1 \<le> n \<Longrightarrow> count_mip_maps n = int (floorlog 2 n)"
  by (simp add: count_mip_maps_def count_mip_maps_loop_floorlog)

lemma count_mip_maps_floor: "1 \<le> n \<Longrightarrow> count_mip_maps n = \<lfloor>log 2 (real n)\<rfloor> + 1"
  by (simp add: count_mip_maps_floorlog floorlog_def)

lemma count_mip_maps_loop_ge: "r \<le> count_mip_maps_loop n r"
proof (induction n r rule: count_mip_maps_loop.induct)
  case (1 sz result)
  show ?case
  proof (cases "sz > 1")
    case True
    with 1[OF True] show ?thesis by (subst count_mip_maps_loop.simps) simp
  next
    case False
    then show ?thesis by (subst count_mip_maps_loop.simps) simp
  qed
qed

lemma count_mip_maps_pos: "1 \<le> count_mip_maps n"
  unfolding count_mip_maps_def by (rule count_mip_maps_loop_ge)

lemma count_mip_maps_loop_shift: "count_mip_maps_loop n (r + d) = count_mip_maps_loop n r + d"
proof (induction n r rule: count_mip_maps_loop.induct)
  case (1 sz result)
  show ?case
  proof (cases "sz > 1")
    case True
    from 1[OF True] have "count_mip_maps_loop (sz div 2) (result + d + 1)
        = count_mip_maps_loop (sz div 2) (result + 1) + d"
      by (simp add: add.commute add.left_commute)
    with True show ?thesis
      by (subst count_mip_maps_loop.simps, subst (2) count_mip_maps_loop.simps) simp
  next
    case False
    then show ?thesis
      by (subst count_mip_maps_loop.simps, subst (2) count_mip_maps_loop.simps) simp
  qed
qed

lemma count_mip_maps_rec:
  "count_mip_maps n = (if n > 1 then count_mip_maps (n div 2) + 1 else 1)"
  unfolding count_mip_maps_def
  by (subst count_mip_maps_loop.simps) (simp add: count_mip_maps_loop_shift[of _ 1 1, simplified])

lemma mip_levels_of_mip_sizes:
  "1 \<le> n \<Longrightarrow> map snd (mip_sizes n l) = [l..<l + nat (count_mip_maps n)]"
proof (induction n l rule: mip_sizes.induct)
  case (1 sz mip_level)
  show ?case
  proof (cases "sz > 1")
    case True
    then have "1 \<le> sz div 2" by simp
    from 1(1)[OF 1(2) this] have
      "map snd (mip_sizes (sz div 2) (mip_level + 1)) =
       [mip_level + 1..<mip_level + 1 + nat (count_mip_maps (sz div 2))]" .
    moreover have "nat (count_mip_maps sz) = Suc (nat (count_mip_maps (sz div 2)))"
      using True count_mip_maps_pos[of "sz div 2"] by (subst count_mip_maps_rec) simp
    moreover have "mip_sizes sz mip_level
        = (sz, mip_level) # mip_sizes (sz div 2) (mip_level + 1)"
      using 1(2) by (subst mip_sizes.simps) simp
    ultimately show ?thesis
      by (simp add: upt_conv_Cons del: upt_Suc)
  next
    case False
    with 1(2) have "sz = 1" by simp
    then show ?thesis
      by (subst mip_sizes.simps, subst mip_sizes.simps, subst count_mip_maps_rec) simp
  qed
qed

lemma map_mip_sizes:
  assumes "1 \<le> n"
  shows "map (\<lambda>(mip_size, mip_level). g mip_level) (mip_sizes n 0)
    = map g [0..<nat (count_mip_maps n)]"
proof -
  have "map (\<lambda>(mip_size, mip_level). g mip_level) (mip_sizes n 0)
      = map g (map snd (mip_sizes n 0))"
    by (simp add: split_def)
  then show ?thesis by (simp add: mip_levels_of_mip_sizes[OF assms])
qed

lemma to_uint16_small: "n \<le> 65535 \<Longrightarrow> to_uint16 n = n"
  by (simp add: to_uint16_def)

lemma length_concat_six:
  "(\<And>x. length (g x) = k) \<Longrightarrow> length (concat (map g [0..<6])) = 6 * k"
  by (simp add: length_concat o_def del: upt_Suc) (simp add: sum_list_triv)

lemma count_values: "count_mip_maps 1024 = 11" "count_mip_maps 32 = 6" "count_mip_maps 1 = 1"
  "count_mip_maps 2 = 2"
  by (simp_all add: count_mip_maps_def count_mip_maps_loop.simps)

subsection \<open>The cube map containers\<close>

text \<open>
  C5. For every size of at least 1 (a power of two or not), \<^verbatim>\<open>count_mip_maps\<close> is the floor
  of the binary logarithm plus one: 11 for 1024, 6 for 32, 1 for 1. In a run of
  \<^verbatim>\<open>compile_cube_map\<close> that returns 0 the three headers declare, in this order,
  \<open>count_mip_maps output_size\<close> levels for the cube map, one level for the irradiance map
  and \<open>count_mip_maps prefilter_size\<close> levels for the prefilter map, and the number of
  compress calls on each container is six times the number its header declares (for the
  prefilter map, whose loop counts in 16 bits, when its size is between 1 and 65535, as
  \<^verbatim>\<open>main\<close> makes sure).
\<close>

theorem mip_count:
  "(1 \<le> sz \<longrightarrow> count_mip_maps sz = \<lfloor>log 2 (real sz)\<rfloor> + 1)
   \<and> count_mip_maps 1024 = 11 \<and> count_mip_maps 32 = 6 \<and> count_mip_maps 1 = 1
   \<and> (let r = compile_cube_map w input output output_size output_irradiance irradiance_size
                 output_prefilter prefilter_size compression
      in exit_code r = Some 0 \<longrightarrow>
           concat (map header_mips (calls (final r))) =
             [(cube_map_compressor, count_mip_maps output_size), (irradiance_compressor, 1),
              (prefilter_compressor, count_mip_maps prefilter_size)]
         \<and> length (concat (map (compressed_by cube_map_compressor) (calls (final r))))
             = 6 * nat (count_mip_maps output_size)
         \<and> length (concat (map (compressed_by irradiance_compressor) (calls (final r)))) = 6
         \<and> (1 \<le> prefilter_size \<and> prefilter_size \<le> 65535 \<longrightarrow>
              length (concat (map (compressed_by prefilter_compressor) (calls (final r))))
                = 6 * nat (count_mip_maps prefilter_size)))"
proof (intro conjI impI)
  show "count_mip_maps sz = \<lfloor>log 2 (real sz)\<rfloor> + 1" if "1 \<le> sz"
    using that by (rule count_mip_maps_floor)
  show "count_mip_maps 1024 = 11" "count_mip_maps 32 = 6" "count_mip_maps 1 = 1"
    by (rule count_values)+
  let ?r = "compile_cube_map w input output output_size output_irradiance irradiance_size
                 output_prefilter prefilter_size compression"
  have "exit_code ?r = Some 0 \<longrightarrow>
           concat (map header_mips (calls (final ?r))) =
             [(cube_map_compressor, count_mip_maps output_size), (irradiance_compressor, 1),
              (prefilter_compressor, count_mip_maps prefilter_size)]
         \<and> length (concat (map (compressed_by cube_map_compressor) (calls (final ?r))))
             = 6 * nat (count_mip_maps output_size)
         \<and> length (concat (map (compressed_by irradiance_compressor) (calls (final ?r)))) = 6
         \<and> (1 \<le> prefilter_size \<and> prefilter_size \<le> 65535 \<longrightarrow>
              length (concat (map (compressed_by prefilter_compressor) (calls (final ?r))))
                = 6 * nat (count_mip_maps prefilter_size))"
  proof (intro impI conjI)
    assume "exit_code ?r = Some 0"
    with compile_cube_map_calls
    have eq: "calls (final ?r) = cube_map_calls (fl w) output output_size output_irradiance
        irradiance_size output_prefilter prefilter_size compression"
      by blast
    show "concat (map header_mips (calls (final ?r))) =
             [(cube_map_compressor, count_mip_maps output_size), (irradiance_compressor, 1),
              (prefilter_compressor, count_mip_maps prefilter_size)]"
      unfolding eq by (rule header_mips_cube_map_calls)
    have "length [0..count_mip_maps output_size - 1] = nat (count_mip_maps output_size)"
      using count_mip_maps_pos[of output_size] by simp
    then show "length (concat (map (compressed_by cube_map_compressor) (calls (final ?r))))
             = 6 * nat (count_mip_maps output_size)"
      unfolding eq compressed_by_cube_map_calls by (intro length_concat_six) simp
    show "length (concat (map (compressed_by irradiance_compressor) (calls (final ?r)))) = 6"
      unfolding eq compressed_by_cube_map_calls by simp
    assume "1 \<le> prefilter_size \<and> prefilter_size \<le> 65535"
    then have "length (mip_sizes (to_uint16 prefilter_size) 0)
        = nat (count_mip_maps prefilter_size)"
      using mip_levels_of_mip_sizes[of prefilter_size 0, THEN arg_cong, of length]
      by (simp add: to_uint16_small)
    then show "length (concat (map (compressed_by prefilter_compressor) (calls (final ?r))))
                = 6 * nat (count_mip_maps prefilter_size)"
      unfolding eq compressed_by_cube_map_calls by (intro length_concat_six) simp
  qed
  then show "let r = compile_cube_map w input output output_size output_irradiance irradiance_size
                 output_prefilter prefilter_size compression
      in exit_code r = Some 0 \<longrightarrow>
           concat (map header_mips (calls (final r))) =
             [(cube_map_compressor, count_mip_maps output_size), (irradiance_compressor, 1),
              (prefilter_compressor, count_mip_maps prefilter_size)]
         \<and> length (concat (map (compressed_by cube_map_compressor) (calls (final r))))
             = 6 * nat (count_mip_maps output_size)
         \<and> length (concat (map (compressed_by irradiance_compressor) (calls (final r)))) = 6
         \<and> (1 \<le> prefilter_size \<and> prefilter_size \<le> 65535 \<longrightarrow>
              length (concat (map (compressed_by prefilter_compressor) (calls (final r))))
                = 6 * nat (count_mip_maps prefilter_size))"
    unfolding Let_def .
qed

theorem mip_count_witness:
  "(1::nat) \<le> 1024 \<and> count_mip_maps 1024 = \<lfloor>log 2 (real (1024::nat))\<rfloor> + 1
   \<and> exit_code (compile_cube_map world_ok ''in'' ''out'' 2 ''irr'' 1 ''pre'' 2 NO_COMPRESSION)
       = Some 0
   \<and> concat (map header_mips (calls (final
        (compile_cube_map world_ok ''in'' ''out'' 2 ''irr'' 1 ''pre'' 2 NO_COMPRESSION)))) =
       [(cube_map_compressor, 2), (irradiance_compressor, 1), (prefilter_compressor, 2)]
   \<and> length (concat (map (compressed_by cube_map_compressor) (calls (final
        (compile_cube_map world_ok ''in'' ''out'' 2 ''irr'' 1 ''pre'' 2 NO_COMPRESSION))))) = 12
   \<and> length (concat (map (compressed_by irradiance_compressor) (calls (final
        (compile_cube_map world_ok ''in'' ''out'' 2 ''irr'' 1 ''pre'' 2 NO_COMPRESSION))))) = 6
   \<and> length (concat (map (compressed_by prefilter_compressor) (calls (final
        (compile_cube_map world_ok ''in'' ''out'' 2 ''irr'' 1 ''pre'' 2 NO_COMPRESSION))))) = 12"
  using mip_count [of 1024 world_ok "''in''" "''out''" 2 "''irr''" 1 "''pre''" 2 NO_COMPRESSION]
    cooperative_returns_0 [OF world_ok_cooperative, of "''in''" "''out''" 2 "''irr''" 1 "''pre''" 2
      NO_COMPRESSION]
  by (simp add: Let_def count_values)

text \<open>
  C6. The header, compress and uniform calls of any run of \<^verbatim>\<open>compile_cube_map\<close> are a
  prefix of \<open>cube_map_calls\<close>, and all of it in a run that returns 0. There each container
  has its header first; then the compress calls on the cube map go through the sides 0 to
  5 and, within a side, through the mip levels 0 to N - 1 in increasing order; those on the
  irradiance map through the sides 0 to 5 at level 0; those on the prefilter map through
  the sides and, within a side, the levels in increasing order (for a size between 1 and
  65535).
\<close>

theorem cube_map_compress_order:
  "let r = compile_cube_map w input output output_size output_irradiance irradiance_size
             output_prefilter prefilter_size compression;
       expected = cube_map_calls (fl w) output output_size output_irradiance irradiance_size
             output_prefilter prefilter_size compression
   in prefix (calls (final r)) expected
    \<and> (exit_code r = Some 0 \<longrightarrow>
         calls (final r) = expected
       \<and> concat (map (compressed_by cube_map_compressor) (calls (final r))) =
           concat (map (\<lambda>side. map (\<lambda>mip_level. (int side, mip_level))
             [0..count_mip_maps output_size - 1]) [0..<6])
       \<and> concat (map (compressed_by irradiance_compressor) (calls (final r))) =
           map (\<lambda>side. (int side, 0)) [0..<6]
       \<and> (1 \<le> prefilter_size \<and> prefilter_size \<le> 65535 \<longrightarrow>
            concat (map (compressed_by prefilter_compressor) (calls (final r))) =
            concat (map (\<lambda>side. map (\<lambda>mip_level. (int side, int mip_level))
              [0..<nat (count_mip_maps prefilter_size)]) [0..<6])))"
proof -
  let ?r = "compile_cube_map w input output output_size output_irradiance irradiance_size
             output_prefilter prefilter_size compression"
  let ?e = "cube_map_calls (fl w) output output_size output_irradiance irradiance_size
             output_prefilter prefilter_size compression"
  have p: "prefix (calls (final ?r)) ?e" and e: "exit_code ?r = Some 0 \<longrightarrow> calls (final ?r) = ?e"
    using compile_cube_map_calls by blast+
  have pre: "concat (map (compressed_by prefilter_compressor) ?e) =
            concat (map (\<lambda>side. map (\<lambda>mip_level. (int side, int mip_level))
              [0..<nat (count_mip_maps prefilter_size)]) [0..<6])"
    if "1 \<le> prefilter_size \<and> prefilter_size \<le> 65535"
    unfolding compressed_by_cube_map_calls using that
    by (simp add: to_uint16_small map_mip_sizes del: upt_Suc)
  show ?thesis
    unfolding Let_def using p e pre by (auto simp: compressed_by_cube_map_calls)
qed

theorem cube_map_compress_order_witness:
  "exit_code (compile_cube_map world_ok ''in'' ''out'' 2 ''irr'' 1 ''pre'' 2 NO_COMPRESSION)
       = Some 0
   \<and> concat (map (compressed_by cube_map_compressor) (calls (final
        (compile_cube_map world_ok ''in'' ''out'' 2 ''irr'' 1 ''pre'' 2 NO_COMPRESSION)))) =
       [(0, 0), (0, 1), (1, 0), (1, 1), (2, 0), (2, 1), (3, 0), (3, 1), (4, 0), (4, 1),
        (5, 0), (5, 1)]
   \<and> concat (map (compressed_by irradiance_compressor) (calls (final
        (compile_cube_map world_ok ''in'' ''out'' 2 ''irr'' 1 ''pre'' 2 NO_COMPRESSION)))) =
       [(0, 0), (1, 0), (2, 0), (3, 0), (4, 0), (5, 0)]
   \<and> concat (map (compressed_by prefilter_compressor) (calls (final
        (compile_cube_map world_ok ''in'' ''out'' 2 ''irr'' 1 ''pre'' 2 NO_COMPRESSION)))) =
       [(0, 0), (0, 1), (1, 0), (1, 1), (2, 0), (2, 1), (3, 0), (3, 1), (4, 0), (4, 1),
        (5, 0), (5, 1)]"
proof -
  have six: "[0..<6] = [0, 1, 2, 3, 4, 5]" by (simp add: upt_rec)
  have two: "[0..<2] = [0, 1]" by (simp add: upt_rec)
  have up: "[0..1] = [0, 1::int]" by (simp add: upto_rec1)
  let ?r = "compile_cube_map world_ok ''in'' ''out'' 2 ''irr'' 1 ''pre'' 2 NO_COMPRESSION"
  have r0: "exit_code ?r = Some 0"
    by (rule cooperative_returns_0 [OF world_ok_cooperative])
  have sz: "(1::nat) \<le> 2 \<and> (2::nat) \<le> 65535" by simp
  note t = cube_map_compress_order [of world_ok "''in''" "''out''" 2 "''irr''" 1 "''pre''" 2
      NO_COMPRESSION, unfolded Let_def]
  from t r0 have a: "concat (map (compressed_by cube_map_compressor) (calls (final ?r))) =
           concat (map (\<lambda>side. map (\<lambda>mip_level. (int side, mip_level))
             [0..count_mip_maps 2 - 1]) [0..<6])"
    by blast
  from t r0 have b: "concat (map (compressed_by irradiance_compressor) (calls (final ?r))) =
           map (\<lambda>side. (int side, 0)) [0..<6]"
    by blast
  from t r0 sz have c: "concat (map (compressed_by prefilter_compressor) (calls (final ?r))) =
            concat (map (\<lambda>side. map (\<lambda>mip_level. (int side, int mip_level))
              [0..<nat (count_mip_maps 2)]) [0..<6])"
    by blast
  show ?thesis
    unfolding a b c using r0 by (simp add: count_values six two up)
qed

subsection \<open>The prefilter uniform\<close>

lemma settings_first:
  assumes "\<forall>x \<in> {0, 1 / 4, 1 / 2, 3 / 4, 1, 2, 3, 4}. rnd x = x"
  shows "settings rnd output_size m ! 0 = real (min m MAX_MIP_LEVELS) / real MAX_MIP_LEVELS"
proof -
  have "min m 4 \<in> {0, 1, 2, 3, 4}" by auto
  then have "real (min m 4) \<in> {0, 1, 2, 3, 4}" by auto
  then show ?thesis using assms
    by (auto simp: settings_def MAX_MIP_LEVELS_def)
qed

lemma settings_mono:
  assumes "mono rnd" and "rnd 0 = 0" and "m \<le> m'"
  shows "settings rnd output_size m ! 0 \<le> settings rnd output_size m' ! 0"
proof -
  have "0 \<le> rnd (real MAX_MIP_LEVELS)"
    using monoD[OF assms(1), of 0 "real MAX_MIP_LEVELS"] assms(2) by simp
  moreover have "rnd (real (min m MAX_MIP_LEVELS)) \<le> rnd (real (min m' MAX_MIP_LEVELS))"
    using assms(3) by (intro monoD[OF assms(1)]) simp
  ultimately have "rnd (real (min m MAX_MIP_LEVELS)) / rnd (real MAX_MIP_LEVELS)
      \<le> rnd (real (min m' MAX_MIP_LEVELS)) / rnd (real MAX_MIP_LEVELS)"
    by (rule divide_right_mono[rotated])
  then show ?thesis
    by (simp add: settings_def monoD[OF assms(1)])
qed

lemma settings_capped:
  "MAX_MIP_LEVELS \<le> m \<Longrightarrow> settings rnd output_size m = settings rnd output_size MAX_MIP_LEVELS"
  by (simp add: settings_def min_def)

end
